theory Spec2Isabelle
  imports Main
begin

section \<open>SDK type definitions (sdks/typescript/dist/types.js)\<close>

text \<open>
  The two string enums of the TypeScript SDK. Each is a closed variant; the compiled
  JavaScript stores, for every member, the string the member stands for.
\<close>

datatype SchemaFormat = JSON_SCHEMA | AVRO | PROTOBUF

datatype CompatibilityMode =
    BACKWARD | FORWARD | FULL
  | BACKWARD_TRANSITIVE | FORWARD_TRANSITIVE | FULL_TRANSITIVE
  | NONE

text \<open>The entries of the compiled enum objects, in the order the assignments run.\<close>

definition SchemaFormat_entries :: "(string \<times> string) list" where
  "SchemaFormat_entries =
     [(''JSON_SCHEMA'', ''json_schema''), (''AVRO'', ''avro''), (''PROTOBUF'', ''protobuf'')]"

definition CompatibilityMode_entries :: "(string \<times> string) list" where
  "CompatibilityMode_entries =
     [(''BACKWARD'', ''backward''),
      (''FORWARD'', ''forward''),
      (''FULL'', ''full''),
      (''BACKWARD_TRANSITIVE'', ''backward_transitive''),
      (''FORWARD_TRANSITIVE'', ''forward_transitive''),
      (''FULL_TRANSITIVE'', ''full_transitive''),
      (''NONE'', ''none'')]"

fun CompatibilityMode_key :: "CompatibilityMode \<Rightarrow> string" where
  "CompatibilityMode_key BACKWARD = ''BACKWARD''"
| "CompatibilityMode_key FORWARD = ''FORWARD''"
| "CompatibilityMode_key FULL = ''FULL''"
| "CompatibilityMode_key BACKWARD_TRANSITIVE = ''BACKWARD_TRANSITIVE''"
| "CompatibilityMode_key FORWARD_TRANSITIVE = ''FORWARD_TRANSITIVE''"
| "CompatibilityMode_key FULL_TRANSITIVE = ''FULL_TRANSITIVE''"
| "CompatibilityMode_key NONE = ''NONE''"

section \<open>JavaScript values\<close>

text \<open>
  What the server sends is JSON that nothing checks against the SDK's type declarations:
  the body of a response is any JSON value. Numbers are integers here. A property that is
  absent reads as \<open>undefined\<close>, which is \<open>None\<close>.
\<close>

datatype json =
    JNull
  | JBool bool
  | JNumber int
  | JString string
  | JArray "json list"
  | JObject "(string \<times> json) list"

text \<open>Truthiness: \<open>null\<close>, \<open>false\<close>, \<open>0\<close>, the empty string and \<open>undefined\<close> are falsy.\<close>

fun truthy :: "json \<Rightarrow> bool" where
  "truthy JNull = False"
| "truthy (JBool b) = b"
| "truthy (JNumber n) = (n \<noteq> 0)"
| "truthy (JString s) = (s \<noteq> [])"
| "truthy (JArray xs) = True"
| "truthy (JObject kvs) = True"

text \<open>
  \<open>x?.p\<close> for one of the properties \<open>message\<close>, \<open>error\<close>, \<open>errors\<close>: only an
  object can have it; of a repeated key the last entry counts.
\<close>

fun get_prop :: "json option \<Rightarrow> string \<Rightarrow> json option" where
  "get_prop (Some (JObject kvs)) p = map_of (rev kvs) p"
| "get_prop _ p = None"

text \<open>\<open>a || b\<close> where \<open>b\<close> is defined.\<close>

definition or_value :: "json option \<Rightarrow> json \<Rightarrow> json" where
  "or_value a b = (case a of None \<Rightarrow> b | Some v \<Rightarrow> if truthy v then v else b)"

text \<open>\<open>Array.prototype.join\<close> and the decimal rendering of an integer.\<close>

fun join :: "string \<Rightarrow> string list \<Rightarrow> string" where
  "join sep [] = []"
| "join sep [x] = x"
| "join sep (x # y # ys) = x @ sep @ join sep (y # ys)"

definition digit_char :: "nat \<Rightarrow> char" where
  "digit_char d = char_of (48 + d)"

fun show_nat :: "nat \<Rightarrow> string" where
  "show_nat n = (if n < 10 then [digit_char n] else show_nat (n div 10) @ [digit_char (n mod 10)])"

definition show_int :: "int \<Rightarrow> string" where
  "show_int i = (if i < 0 then CHR ''-'' # show_nat (nat (- i)) else show_nat (nat i))"

text \<open>
  The string a template literal or the \<open>Error\<close> constructor makes of a value. An array
  is its elements joined by commas, \<open>null\<close> elements left empty.
\<close>

fun to_string :: "json \<Rightarrow> string" where
  "to_string JNull = ''null''"
| "to_string (JBool b) = (if b then ''true'' else ''false'')"
| "to_string (JNumber n) = show_int n"
| "to_string (JString s) = s"
| "to_string (JArray xs) = join '','' (map (\<lambda>x. if x = JNull then [] else to_string x) xs)"
| "to_string (JObject kvs) = ''[object Object]''"

section \<open>Error classes (sdks/typescript/dist/errors.js)\<close>

text \<open>
  The class of an error object is the prototype its constructor installs with
  \<open>Object.setPrototypeOf\<close>. \<open>extends\<close> is the \<open>class ... extends ...\<close> relation
  of the source; \<open>Error\<close> and \<open>TypeError\<close> are JavaScript's own.
\<close>

datatype error_class =
    Error
  | TypeError
  | SchemaRegistryError
  | SchemaNotFoundError
  | SchemaValidationError
  | IncompatibleSchemaError
  | AuthenticationError
  | AuthorizationError
  | RateLimitError
  | ServerError

fun extends :: "error_class \<Rightarrow> error_class option" where
  "extends Error = None"
| "extends TypeError = Some Error"
| "extends SchemaRegistryError = Some Error"
| "extends SchemaNotFoundError = Some SchemaRegistryError"
| "extends SchemaValidationError = Some SchemaRegistryError"
| "extends IncompatibleSchemaError = Some SchemaRegistryError"
| "extends AuthenticationError = Some SchemaRegistryError"
| "extends AuthorizationError = Some SchemaRegistryError"
| "extends RateLimitError = Some SchemaRegistryError"
| "extends ServerError = Some SchemaRegistryError"

text \<open>The prototype chain of a class, the class itself first. The hierarchy is two deep.\<close>

definition prototype_chain :: "error_class \<Rightarrow> error_class list" where
  "prototype_chain c =
     (case extends c of
        None \<Rightarrow> [c]
      | Some p \<Rightarrow> (case extends p of None \<Rightarrow> [c, p] | Some g \<Rightarrow> [c, p, g]))"

text \<open>
  An error object with the own properties the constructors assign. A property a
  constructor does not assign is \<open>None\<close>. The message is a string, made by the
  \<open>Error\<close> constructor; the other properties are stored as they are passed.
\<close>

record error_object =
  proto :: error_class
  name :: string
  message :: string
  statusCode :: "int option"
  schemaId :: "json option"
  errors :: "json list option"
  incompatibilities :: "json list option"
  retryAfter :: "int option"

definition instanceof :: "error_object \<Rightarrow> error_class \<Rightarrow> bool" where
  "instanceof e c = (c \<in> set (prototype_chain (proto e)))"

text \<open>An expression either returns a value or throws an error object.\<close>

datatype 'a completion = Return 'a | Throw error_object

definition newline :: string where
  "newline = [CHR 0x0A]"

definition bullet :: "json \<Rightarrow> string" where
  "bullet e = ''  - '' @ to_string e"

definition new_TypeError :: "string \<Rightarrow> error_object" where
  "new_TypeError msg =
     \<lparr>proto = TypeError, name = ''TypeError'', message = msg,
      statusCode = None, schemaId = None, errors = None, incompatibilities = None,
      retryAfter = None\<rparr>"

text \<open>
  \<open>v.map(...)\<close> where \<open>v\<close> is no array: no JSON value but an array has a callable
  \<open>map\<close>, so the call throws a \<open>TypeError\<close>.
\<close>

definition map_TypeError :: "string \<Rightarrow> json \<Rightarrow> error_object" where
  "map_TypeError var v =
     new_TypeError
       (if v = JNull
        then ''Cannot read properties of null (reading '' @ [CHR 0x27] @ ''map'' @ [CHR 0x27] @ '')''
        else var @ ''.map is not a function'')"

definition new_SchemaRegistryError :: "json \<Rightarrow> int option \<Rightarrow> error_object" where
  "new_SchemaRegistryError msg status =
     \<lparr>proto = SchemaRegistryError, name = ''SchemaRegistryError'', message = to_string msg,
      statusCode = status, schemaId = None, errors = None, incompatibilities = None,
      retryAfter = None\<rparr>"

definition new_SchemaNotFoundError :: "json \<Rightarrow> error_object" where
  "new_SchemaNotFoundError sid =
     (new_SchemaRegistryError (JString (''Schema not found: '' @ to_string sid)) (Some 404))
       \<lparr>schemaId := Some sid, name := ''SchemaNotFoundError'', proto := SchemaNotFoundError\<rparr>"

text \<open>
  The two constructors that build their message with \<open>.map\<close> throw before \<open>super\<close>
  is reached when they are given anything but an array.
\<close>

definition new_SchemaValidationError :: "json \<Rightarrow> error_object completion" where
  "new_SchemaValidationError errs =
     (case errs of
        JArray es \<Rightarrow>
          Return
            ((new_SchemaRegistryError
                (JString (''Schema validation failed:'' @ newline @ join newline (map bullet es)))
                (Some 400))
               \<lparr>errors := Some es, name := ''SchemaValidationError'',
                proto := SchemaValidationError\<rparr>)
      | _ \<Rightarrow> Throw (map_TypeError ''errors'' errs))"

definition new_IncompatibleSchemaError :: "json \<Rightarrow> error_object completion" where
  "new_IncompatibleSchemaError incs =
     (case incs of
        JArray es \<Rightarrow>
          Return
            ((new_SchemaRegistryError
                (JString (''Schema compatibility check failed:'' @ newline
                          @ join newline (map bullet es)))
                (Some 409))
               \<lparr>incompatibilities := Some es, name := ''IncompatibleSchemaError'',
                proto := IncompatibleSchemaError\<rparr>)
      | _ \<Rightarrow> Throw (map_TypeError ''incompatibilities'' incs))"

text \<open>A default parameter value applies when the argument is \<open>undefined\<close>.\<close>

definition new_AuthenticationError :: "json option \<Rightarrow> error_object" where
  "new_AuthenticationError msg =
     (new_SchemaRegistryError
        (case msg of None \<Rightarrow> JString ''Authentication failed'' | Some m \<Rightarrow> m) (Some 401))
       \<lparr>name := ''AuthenticationError'', proto := AuthenticationError\<rparr>"

definition new_AuthorizationError :: "json option \<Rightarrow> error_object" where
  "new_AuthorizationError msg =
     (new_SchemaRegistryError
        (case msg of None \<Rightarrow> JString ''Insufficient permissions'' | Some m \<Rightarrow> m) (Some 403))
       \<lparr>name := ''AuthorizationError'', proto := AuthorizationError\<rparr>"

text \<open>\<open>retryAfter ? ... : ...\<close>: \<open>undefined\<close> and \<open>0\<close> are falsy.\<close>

definition new_RateLimitError :: "int option \<Rightarrow> error_object" where
  "new_RateLimitError after =
     (new_SchemaRegistryError
        (JString
           (case after of
              None \<Rightarrow> ''Rate limit exceeded''
            | Some s \<Rightarrow>
                if s = 0 then ''Rate limit exceeded''
                else ''Rate limit exceeded. Retry after '' @ show_int s @ '' seconds''))
        (Some 429))
       \<lparr>retryAfter := after, name := ''RateLimitError'', proto := RateLimitError\<rparr>"

definition new_ServerError :: "json option \<Rightarrow> error_object" where
  "new_ServerError msg =
     (new_SchemaRegistryError
        (case msg of None \<Rightarrow> JString ''Internal server error'' | Some m \<Rightarrow> m) (Some 500))
       \<lparr>name := ''ServerError'', proto := ServerError\<rparr>"

section \<open>The client (sdks/typescript/src/client.ts)\<close>

subsection \<open>What a \<open>catch\<close> block can receive\<close>

text \<open>
  A response with its status and its body, and the Axios error carrying it. A network
  failure has no response. The cast to \<open>AxiosError<{ error?: string; message?: string;
  errors?: string[] }>\<close> checks nothing, so the body stays any JSON value.
\<close>

record response =
  status :: int
  data :: "json option"

record axios_error =
  ax_message :: string
  ax_response :: "response option"

text \<open>
  \<open>error: unknown\<close>: an Axios error, some other \<open>Error\<close> (with its message), or a
  value that is not an \<open>Error\<close> at all.
\<close>

datatype thrown = AxiosError axios_error | OtherError string | NonError

definition response_data :: "axios_error \<Rightarrow> json option" where
  "response_data e = (case ax_response e of None \<Rightarrow> None | Some r \<Rightarrow> data r)"

definition response_status :: "axios_error \<Rightarrow> int option" where
  "response_status e = (case ax_response e of None \<Rightarrow> None | Some r \<Rightarrow> Some (status r))"

text \<open>\<open>data?.message || data?.error || axiosError.message\<close>\<close>

definition error_message :: "axios_error \<Rightarrow> json" where
  "error_message e =
     or_value (get_prop (response_data e) ''message'')
       (or_value (get_prop (response_data e) ''error'') (JString (ax_message e)))"

text \<open>\<open>data?.errors || [message]\<close>: every array, the empty one too, is truthy.\<close>

definition error_list :: "axios_error \<Rightarrow> json" where
  "error_list e = or_value (get_prop (response_data e) ''errors'') (JArray [error_message e])"

text \<open>
  The \<open>switch\<close> compares with \<open>===\<close>; an error without a response has status
  \<open>undefined\<close> and falls to \<open>default\<close>. \<open>handleError\<close> returns the error to throw,
  unless a constructor throws first.
\<close>

fun handleError :: "thrown \<Rightarrow> error_object completion" where
  "handleError (AxiosError e) =
     (let st = response_status e; msg = error_message e; errs = error_list e
      in if st = Some 401 \<or> st = Some 403 then Return (new_AuthenticationError (Some msg))
         else if st = Some 404 then Return (new_SchemaNotFoundError msg)
         else if st = Some 409 then new_IncompatibleSchemaError errs
         else if st = Some 422 then new_SchemaValidationError errs
         else if st = Some 429 then Return (new_RateLimitError None)
         else Return (new_SchemaRegistryError msg st))"
| "handleError (OtherError msg) = Return (new_SchemaRegistryError (JString msg) None)"
| "handleError NonError = Return (new_SchemaRegistryError (JString ''Unknown error occurred'') None)"

text \<open>\<open>throw this.handleError(error)\<close>: what leaves the \<open>catch\<close> block.\<close>

definition throw_handleError :: "thrown \<Rightarrow> error_object" where
  "throw_handleError t = (case handleError t of Return e \<Rightarrow> e | Throw e \<Rightarrow> e)"

subsection \<open>The HTTP transport with its retry interceptor\<close>

datatype http_method = GET | POST | DELETE

type_synonym request = "http_method \<times> string"

text \<open>
  A request is recorded by its method and path; its body and query parameters play no part
  in what follows. One attempt of a request either resolves with the response's
  \<open>data\<close> or rejects. The network is a function from the attempt's number (from 0)
  to its outcome.
\<close>

datatype outcome = Resolved json | Rejected thrown

text \<open>
  The \<open>retryCondition\<close> of the constructor. \<open>isNetworkOrIdempotentRequestError\<close>
  belongs to the axios-retry package and is a parameter here.
  \<open>(status || 0) >= 500\<close> reads an absent status as 0.
\<close>

definition retryCondition :: "(axios_error \<Rightarrow> bool) \<Rightarrow> axios_error \<Rightarrow> bool" where
  "retryCondition isNetworkOrIdempotentRequestError e =
     (isNetworkOrIdempotentRequestError e
      \<or> response_status e = Some 429
      \<or> (case response_status e of None \<Rightarrow> 0 | Some s \<Rightarrow> s) \<ge> 500)"

text \<open>
  axios-retry: a rejected attempt is sent again while the condition holds of its error and
  fewer than \<open>retries\<close> retries have been made. The first argument counts the retries
  left; the result is the final outcome and the number of attempts made.
\<close>

fun send :: "nat \<Rightarrow> (axios_error \<Rightarrow> bool) \<Rightarrow> (nat \<Rightarrow> outcome) \<Rightarrow> nat \<Rightarrow> outcome \<times> nat" where
  "send 0 cond net i = (net i, Suc i)"
| "send (Suc k) cond net i =
     (case net i of
        Rejected (AxiosError e) \<Rightarrow> if cond e then send k cond net (Suc i) else (net i, Suc i)
      | other \<Rightarrow> (other, Suc i))"

subsection \<open>The LRU cache with a time to live\<close>

text \<open>
  The \<open>lru-cache\<close> package as the client uses it: entries from most to least recently
  used, each with the time it was stored. An entry older than \<open>ttl\<close> is stale: \<open>get\<close>
  drops it and answers \<open>undefined\<close>. \<open>set\<close> on a full cache evicts the least
  recently used entry. Times are in milliseconds.
\<close>

record cache_entry =
  ekey :: string
  evalue :: json
  estart :: nat

definition is_stale :: "nat \<Rightarrow> nat \<Rightarrow> cache_entry \<Rightarrow> bool" where
  "is_stale ttl now e = (now > estart e + ttl)"

definition cache_delete :: "string \<Rightarrow> cache_entry list \<Rightarrow> cache_entry list" where
  "cache_delete k es = filter (\<lambda>e. ekey e \<noteq> k) es"

definition cache_get ::
  "nat \<Rightarrow> nat \<Rightarrow> string \<Rightarrow> cache_entry list \<Rightarrow> json option \<times> cache_entry list" where
  "cache_get ttl now k es =
     (case find (\<lambda>e. ekey e = k) es of
        None \<Rightarrow> (None, es)
      | Some e \<Rightarrow>
          if is_stale ttl now e then (None, cache_delete k es)
          else (Some (evalue e), e # cache_delete k es))"

definition cache_set ::
  "nat \<Rightarrow> nat \<Rightarrow> string \<Rightarrow> json \<Rightarrow> cache_entry list \<Rightarrow> cache_entry list" where
  "cache_set max_size now k v es =
     (let new = \<lparr>ekey = k, evalue = v, estart = now\<rparr>
      in if k \<in> set (map ekey es) then new # cache_delete k es
         else if length es \<ge> max_size then new # butlast es
         else new # es)"

subsection \<open>Construction\<close>

text \<open>
  The fields of \<open>ClientConfig\<close> the constructor reads. The cache accepts positive
  integers only; \<open>maxRetries\<close> may be any integer.
\<close>

record ClientConfig =
  baseURL :: string
  timeout :: "nat option"
  apiKey :: "string option"
  maxRetries :: "int option"
  cacheMaxSize :: "nat option"
  cacheTTL :: "nat option"

text \<open>\<open>n || d\<close> on an optional number: \<open>undefined\<close> and 0 are falsy.\<close>

definition or_number :: "nat option \<Rightarrow> nat \<Rightarrow> nat" where
  "or_number a d = (case a of None \<Rightarrow> d | Some n \<Rightarrow> if n = 0 then d else n)"

definition or_integer :: "int option \<Rightarrow> int \<Rightarrow> int" where
  "or_integer a d = (case a of None \<Rightarrow> d | Some n \<Rightarrow> if n = 0 then d else n)"

record client =
  client_baseURL :: string
  client_timeout :: nat
  client_headers :: "(string \<times> string) list"
  retries :: int
  retry_cond :: "axios_error \<Rightarrow> bool"
  cache_max :: nat
  cache_ttl :: nat
  cache :: "cache_entry list"

definition new_SchemaRegistryClient :: "(axios_error \<Rightarrow> bool) \<Rightarrow> ClientConfig \<Rightarrow> client" where
  "new_SchemaRegistryClient isNetworkOrIdempotentRequestError config =
     \<lparr>client_baseURL = baseURL config,
      client_timeout = or_number (timeout config) 30000,
      client_headers =
        (''Content-Type'', ''application/json'') #
        (case apiKey config of
           None \<Rightarrow> []
         | Some k \<Rightarrow> if k = [] then [] else [(''X-API-Key'', k)]),
      retries = or_integer (maxRetries config) 3,
      retry_cond = retryCondition isNetworkOrIdempotentRequestError,
      cache_max = or_number (cacheMaxSize config) 1000,
      cache_ttl = or_number (cacheTTL config) 300000,
      cache = []\<rparr>"

subsection \<open>Operations\<close>

text \<open>
  Every operation is \<open>try { await request; return data } catch (error) { throw
  this.handleError(error) }\<close>. An operation gives its completion (the data returned or
  the error thrown), the client afterwards, and the requests sent, one per attempt. A
  negative number of retries retries never.
\<close>

definition call :: "client \<Rightarrow> request \<Rightarrow> (nat \<Rightarrow> outcome) \<Rightarrow> json completion \<times> request list" where
  "call c req net =
     (case send (nat (retries c)) (retry_cond c) net 0 of
        (Resolved d, n) \<Rightarrow> (Return d, replicate n req)
      | (Rejected t, n) \<Rightarrow> (Throw (throw_handleError t), replicate n req))"

definition cacheKey :: "string \<Rightarrow> string \<Rightarrow> string \<Rightarrow> string" where
  "cacheKey namespace nm version = namespace @ '':'' @ nm @ '':'' @ version"

definition registerSchema ::
  "client \<Rightarrow> 's \<Rightarrow> (nat \<Rightarrow> outcome) \<Rightarrow> json completion \<times> client \<times> request list" where
  "registerSchema c schema net =
     (case call c (POST, ''/schemas'') net of (r, log) \<Rightarrow> (r, c, log))"

text \<open>
  \<open>getSchema\<close> reads the cache at time \<open>now\<close> and returns what it finds if that is
  truthy (\<open>if (cached)\<close>); otherwise it sends the request and stores the answer at time
  \<open>later\<close>.
\<close>

definition getSchema ::
  "client \<Rightarrow> string \<Rightarrow> string \<Rightarrow> string \<Rightarrow> nat \<Rightarrow> nat \<Rightarrow> (nat \<Rightarrow> outcome)
     \<Rightarrow> json completion \<times> client \<times> request list" where
  "getSchema c namespace nm version now later net =
     (case cache_get (cache_ttl c) now (cacheKey namespace nm version) (cache c) of
        (cached, es) \<Rightarrow>
          (let fetched =
             (case call c (GET, ''/schemas/'' @ namespace @ ''/'' @ nm @ ''/'' @ version) net of
                (Return d, log) \<Rightarrow>
                  (Return d,
                   c\<lparr>cache := cache_set (cache_max c) later (cacheKey namespace nm version) d es\<rparr>,
                   log)
              | (Throw e, log) \<Rightarrow> (Throw e, c\<lparr>cache := es\<rparr>, log))
           in case cached of
                None \<Rightarrow> fetched
              | Some v \<Rightarrow> if truthy v then (Return v, c\<lparr>cache := es\<rparr>, []) else fetched))"

definition getLatestSchema ::
  "client \<Rightarrow> string \<Rightarrow> string \<Rightarrow> (nat \<Rightarrow> outcome) \<Rightarrow> json completion \<times> client \<times> request list" where
  "getLatestSchema c namespace nm net =
     (case call c (GET, ''/schemas/'' @ namespace @ ''/'' @ nm @ ''/latest'') net of
        (r, log) \<Rightarrow> (r, c, log))"

definition validate ::
  "client \<Rightarrow> string \<Rightarrow> string \<Rightarrow> string \<Rightarrow> 'd \<Rightarrow> (nat \<Rightarrow> outcome)
     \<Rightarrow> json completion \<times> client \<times> request list" where
  "validate c namespace nm version dat net =
     (case call c (POST, ''/schemas/'' @ namespace @ ''/'' @ nm @ ''/'' @ version @ ''/validate'')
             net of
        (r, log) \<Rightarrow> (r, c, log))"

definition checkCompatibility ::
  "client \<Rightarrow> string \<Rightarrow> string \<Rightarrow> string \<Rightarrow> (nat \<Rightarrow> outcome)
     \<Rightarrow> json completion \<times> client \<times> request list" where
  "checkCompatibility c namespace nm newSchema net =
     (case call c (POST, ''/schemas/'' @ namespace @ ''/'' @ nm @ ''/compatibility'') net of
        (r, log) \<Rightarrow> (r, c, log))"

definition searchSchemas ::
  "client \<Rightarrow> string \<Rightarrow> (nat \<Rightarrow> outcome) \<Rightarrow> json completion \<times> client \<times> request list" where
  "searchSchemas c query net =
     (case call c (GET, ''/schemas/search'') net of (r, log) \<Rightarrow> (r, c, log))"

definition listSchemas ::
  "client \<Rightarrow> string \<Rightarrow> (nat \<Rightarrow> outcome) \<Rightarrow> json completion \<times> client \<times> request list" where
  "listSchemas c namespace net =
     (case call c (GET, ''/schemas/'' @ namespace) net of (r, log) \<Rightarrow> (r, c, log))"

text \<open>\<open>deleteSchema\<close> invalidates the cache entry only after the request succeeded.\<close>

definition deleteSchema ::
  "client \<Rightarrow> string \<Rightarrow> string \<Rightarrow> string \<Rightarrow> (nat \<Rightarrow> outcome)
     \<Rightarrow> unit completion \<times> client \<times> request list" where
  "deleteSchema c namespace nm version net =
     (case call c (DELETE, ''/schemas/'' @ namespace @ ''/'' @ nm @ ''/'' @ version) net of
        (Return d, log) \<Rightarrow>
          (Return (), c\<lparr>cache := cache_delete (cacheKey namespace nm version) (cache c)\<rparr>, log)
      | (Throw e, log) \<Rightarrow> (Throw e, c, log))"

definition clearCache :: "client \<Rightarrow> client" where
  "clearCache c = c\<lparr>cache := []\<rparr>"

subsection \<open>Reading an operation's result\<close>

text \<open>The error an operation threw, if it threw, and the requests it sent.\<close>

definition thrown_error :: "'b completion \<times> 'c \<Rightarrow> error_object option" where
  "thrown_error r = (case fst r of Throw e \<Rightarrow> Some e | Return d \<Rightarrow> None)"

definition requests_of :: "'r \<times> 'c \<times> request list \<Rightarrow> request list" where
  "requests_of r = snd (snd r)"

text \<open>A configuration that sets the base URL only; every other field takes its default.\<close>

definition default_config :: ClientConfig where
  "default_config =
     \<lparr>baseURL = ''http://localhost:8080'', timeout = None, apiKey = None,
      maxRetries = None, cacheMaxSize = None, cacheTTL = None\<rparr>"

text \<open>Example data: an error response with a given status and body.\<close>

definition status_error :: "int \<Rightarrow> json option \<Rightarrow> axios_error" where
  "status_error s d =
     \<lparr>ax_message = ''Request failed with status code '' @ show_int s,
      ax_response = Some \<lparr>status = s, data = d\<rparr>\<rparr>"

text \<open>
  Example data: the client of the default configuration and one with a single retry; a
  network that fails once with 503 and then answers, and one that then fails with 404; a
  422 with two validation errors; two schema responses, and the client after it has
  fetched two schemas.
\<close>

definition plain_client :: client where
  "plain_client = new_SchemaRegistryClient (\<lambda>_. False) default_config"

definition one_retry_client :: client where
  "one_retry_client =
     new_SchemaRegistryClient (\<lambda>_. False) (default_config\<lparr>maxRetries := Some 1\<rparr>)"


definition unavailable_then_missing :: "nat \<Rightarrow> outcome" where
  "unavailable_then_missing i =
     (if i = 0 then Rejected (AxiosError (status_error 503 None))
      else Rejected (AxiosError (status_error 404 None)))"


definition user_response :: json where
  "user_response = JObject [(''id'', JString ''user-1''), (''version'', JString ''1'')]"

definition order_response :: json where
  "order_response = JObject [(''id'', JString ''order-2''), (''version'', JString ''2'')]"

definition client_after_two_gets :: "json \<Rightarrow> client" where
  "client_after_two_gets second =
     fst (snd (getSchema
       (fst (snd (getSchema plain_client ''ns'' ''user'' ''1'' 0 0 (\<lambda>_. Resolved user_response))))
       ''ns'' ''order'' ''2'' 0 0 (\<lambda>_. Resolved second)))"

section \<open>The compatibility engine, as specified\<close>

text \<open>
  The validation and compatibility engine that the specification describes is not among
  the sources verified here: of the compatibility check only the SDK's
  \<open>checkCompatibility\<close> is, which posts the new schema to the server. The definitions
  of this section follow the words of the specification.
\<close>

text \<open>
  Modelled from the spec: the kinds of \<open>Primitive\<close> nodes, which are not enumerated.
  These are the kinds the specification names (Avro's \<open>int\<close> and \<open>long\<close> are the
  32-bit and 64-bit integers).
\<close>

datatype PrimitiveKind = Null | Boolean | Int32 | Int64 | Float | Double | String | Bytes

text \<open>
  Modelled from the spec: \<open>SchemaNode\<close>, the normalized AST of section 3, with the
  variants Primitive(kind), Record(name, ordered fields), Field(name, type, required,
  default?), Array(elementType), Map(valueType), Enum(name, ordered symbols) and
  Union(ordered member types). Fields are a type of their own, so that the fields of a
  record are fields. An enum carries the optional default symbol that section 4.3 lets a
  reader declare for unknown symbols.
\<close>

datatype SchemaNode =
    Primitive PrimitiveKind
  | Record string "Field list"
  | Array SchemaNode
  | Map SchemaNode
  | Enum string "string list" "string option"
  | Union "SchemaNode list"
and Field =
    Field (fieldName: string) (fieldType: SchemaNode) (fieldRequired: bool)
      (fieldDefault: "string option")

text \<open>
  Modelled from the spec: primitive widening, for which section 4.3 gives the examples
  int32 to int64 and float to double; narrowing is not readable.
\<close>

fun widens :: "PrimitiveKind \<Rightarrow> PrimitiveKind \<Rightarrow> bool" where
  "widens Int32 Int64 = True"
| "widens Float Double = True"
| "widens _ _ = False"

text \<open>
  Modelled from the spec: \<open>canRead(writer, reader)\<close> of section 4.3. A record is
  readable if every field required by the reader either exists in the writer with a
  compatible type or has a default value in the reader; extra fields of the writer are
  ignored. An enum is readable if the reader accepts every symbol of the writer or declares
  a default symbol. A union is readable if every member of the writer is accepted by at
  least one member of the reader. A primitive is readable as itself or widened. Arrays and
  maps are read element by element; nodes of different variants are not readable.
\<close>

fun canRead :: "SchemaNode \<Rightarrow> SchemaNode \<Rightarrow> bool" where
  "canRead (Primitive w) (Primitive r) = (w = r \<or> widens w r)"
| "canRead (Record wn wfs) (Record rn rfs) =
     list_all (\<lambda>rf. case rf of Field n t req dflt \<Rightarrow>
        \<not> req
        \<or> list_ex (\<lambda>wf. case wf of Field n' t' req' dflt' \<Rightarrow> n' = n \<and> canRead t' t) wfs
        \<or> dflt \<noteq> None) rfs"
| "canRead (Array w) (Array r) = canRead w r"
| "canRead (Map w) (Map r) = canRead w r"
| "canRead (Enum wn ws wd) (Enum rn rs rd) = (list_all (\<lambda>s. s \<in> set rs) ws \<or> rd \<noteq> None)"
| "canRead (Union wms) (Union rms) = list_all (\<lambda>wm. list_ex (\<lambda>rm. canRead wm rm) rms) wms"
| "canRead _ _ = False"

text \<open>
  Modelled from the spec: the change of the monotonic-safety property of section 8,
  \<open>B adds only a new field with a default value to A\<close>: one field with a default
  value, under a name the record does not use yet, is added to a record of \<open>A\<close>, at
  any position and at any depth; nothing else differs.
\<close>

inductive adds_field :: "SchemaNode \<Rightarrow> SchemaNode \<Rightarrow> bool" where
  here: "f \<notin> fieldName ` set (fs1 @ fs2) \<Longrightarrow>
     adds_field (Record n (fs1 @ fs2)) (Record n (fs1 @ Field f t req (Some d) # fs2))"
| in_field: "adds_field a b \<Longrightarrow>
     adds_field (Record n (fs1 @ Field f a req dflt # fs2))
                (Record n (fs1 @ Field f b req dflt # fs2))"
| in_array: "adds_field a b \<Longrightarrow> adds_field (Array a) (Array b)"
| in_map: "adds_field a b \<Longrightarrow> adds_field (Map a) (Map b)"
| in_union: "adds_field a b \<Longrightarrow> adds_field (Union (ms1 @ a # ms2)) (Union (ms1 @ b # ms2))"

code_pred adds_field .

text \<open>
  Modelled from the spec: the two pairwise predicates of section 4.3 and the glossary.
  BACKWARD holds when the new schema can read data written with the old schema: the history
  entry is the writer and the candidate the reader. FORWARD holds when the old schema can
  read data written with the new schema: the candidate is the writer and the entry the
  reader.
\<close>

datatype Predicate = Backward | Forward

fun holds :: "Predicate \<Rightarrow> SchemaNode \<Rightarrow> SchemaNode \<Rightarrow> bool" where
  "holds Backward candidate entry = canRead entry candidate"
| "holds Forward candidate entry = canRead candidate entry"

text \<open>
  Modelled from the spec: the predicates a mode asks for (FULL asks for both), and
  which modes are transitive.
\<close>

fun predicates :: "CompatibilityMode \<Rightarrow> Predicate list" where
  "predicates BACKWARD = [Backward]"
| "predicates FORWARD = [Forward]"
| "predicates FULL = [Backward, Forward]"
| "predicates BACKWARD_TRANSITIVE = [Backward]"
| "predicates FORWARD_TRANSITIVE = [Forward]"
| "predicates FULL_TRANSITIVE = [Backward, Forward]"
| "predicates NONE = []"

fun transitive :: "CompatibilityMode \<Rightarrow> bool" where
  "transitive BACKWARD_TRANSITIVE = True"
| "transitive FORWARD_TRANSITIVE = True"
| "transitive FULL_TRANSITIVE = True"
| "transitive _ = False"

text \<open>
  Modelled from the spec: \<open>CompatibilityVerdict\<close> of section 3. A reason names the
  predicate that failed and the version it failed against; a version is identified by its
  position in the history, the oldest being version 1. The field \<open>incompatibilities\<close>
  is named \<open>verdictIncompatibilities\<close> here, apart from the SDK error's field.
\<close>

record Incompatibility =
  failedPredicate :: Predicate
  againstVersion :: nat

record CompatibilityVerdict =
  compatible :: bool
  verdictIncompatibilities :: "Incompatibility list"
  checkedAgainstVersions :: "nat list"

text \<open>
  Modelled from the spec: the evaluation of section 4.3. The predicates of the mode are
  evaluated against the entries in the order given, and evaluation stops at the first
  predicate that fails, which is recorded as the reason.
\<close>

fun first_failure :: "SchemaNode \<Rightarrow> SchemaNode \<Rightarrow> Predicate list \<Rightarrow> Predicate option" where
  "first_failure candidate entry [] = None"
| "first_failure candidate entry (p # ps) =
     (if holds p candidate entry then first_failure candidate entry ps else Some p)"

fun check_entries ::
  "SchemaNode \<Rightarrow> Predicate list \<Rightarrow> nat \<Rightarrow> SchemaNode list \<Rightarrow> nat list \<Rightarrow> CompatibilityVerdict" where
  "check_entries candidate ps v [] checked =
     \<lparr>compatible = True, verdictIncompatibilities = [], checkedAgainstVersions = checked\<rparr>"
| "check_entries candidate ps v (entry # rest) checked =
     (case first_failure candidate entry ps of
        None \<Rightarrow> check_entries candidate ps (Suc v) rest (checked @ [v])
      | Some p \<Rightarrow>
          \<lparr>compatible = False,
           verdictIncompatibilities = [\<lparr>failedPredicate = p, againstVersion = v\<rparr>],
           checkedAgainstVersions = checked @ [v]\<rparr>)"

text \<open>
  Modelled from the spec: \<open>checkCompatibility(candidate, history, mode)\<close> of section
  4.3, the history oldest first. NONE is always compatible and checks nothing; a transitive
  mode checks every entry, oldest first; the other modes check the most recent entry.
\<close>

definition engine_checkCompatibility ::
  "SchemaNode \<Rightarrow> SchemaNode list \<Rightarrow> CompatibilityMode \<Rightarrow> CompatibilityVerdict" where
  "engine_checkCompatibility candidate history mode =
     (if mode = NONE then
        \<lparr>compatible = True, verdictIncompatibilities = [], checkedAgainstVersions = []\<rparr>
      else if transitive mode then check_entries candidate (predicates mode) 1 history []
      else if history = [] then
        \<lparr>compatible = True, verdictIncompatibilities = [], checkedAgainstVersions = []\<rparr>
      else check_entries candidate (predicates mode) (length history) [last history] [])"

text \<open>
  Modelled from the spec: \<open>SchemaDocument\<close> of section 3 (raw text, format, declared
  namespace and name) and the errors of section 7 that an operation of the core fails with.
\<close>

record SchemaDocument =
  rawText :: string
  docFormat :: SchemaFormat
  docNamespace :: string
  docName :: string

datatype core_error =
    ParseError SchemaFormat nat string
  | UnsupportedFormatError
  | FormatMismatchError
  | InsufficientHistoryError

text \<open>
  Modelled from the spec: the operation \<open>CheckCompatibility(candidateDocument,
  priorVersions, mode)\<close> of section 6. It fails with InsufficientHistoryError when
  \<open>priorVersions\<close> is empty and the mode is not NONE, and with FormatMismatchError when
  the candidate and a prior version declare different formats; otherwise the documents are
  parsed and the engine decides. The parser of section 4.1 is a parameter.
\<close>

fun parse_documents ::
  "(string \<Rightarrow> SchemaFormat \<Rightarrow> core_error + SchemaNode) \<Rightarrow> SchemaDocument list
     \<Rightarrow> core_error + SchemaNode list" where
  "parse_documents parse [] = Inr []"
| "parse_documents parse (d # ds) =
     (case parse (rawText d) (docFormat d) of
        Inl e \<Rightarrow> Inl e
      | Inr n \<Rightarrow> (case parse_documents parse ds of Inl e \<Rightarrow> Inl e | Inr ns \<Rightarrow> Inr (n # ns)))"

definition CheckCompatibility ::
  "(string \<Rightarrow> SchemaFormat \<Rightarrow> core_error + SchemaNode) \<Rightarrow> SchemaDocument \<Rightarrow> SchemaDocument list
     \<Rightarrow> CompatibilityMode \<Rightarrow> core_error + CompatibilityVerdict" where
  "CheckCompatibility parse candidateDocument priorVersions mode =
     (if priorVersions = [] \<and> mode \<noteq> NONE then Inl InsufficientHistoryError
      else if list_ex (\<lambda>p. docFormat p \<noteq> docFormat candidateDocument) priorVersions
        then Inl FormatMismatchError
      else
        (case parse (rawText candidateDocument) (docFormat candidateDocument) of
           Inl e \<Rightarrow> Inl e
         | Inr candidate \<Rightarrow>
             (case parse_documents parse priorVersions of
                Inl e \<Rightarrow> Inl e
              | Inr history \<Rightarrow> Inr (engine_checkCompatibility candidate history mode))))"

text \<open>Example schemas: a record, the record with a required field more, and with an optional one.\<close>

definition user_v1 :: SchemaNode where
  "user_v1 = Record ''User'' [Field ''name'' (Primitive String) True None]"

definition user_with_email :: SchemaNode where
  "user_with_email =
     Record ''User'' [Field ''name'' (Primitive String) True None,
                      Field ''email'' (Primitive String) True None]"

definition user_with_nickname :: SchemaNode where
  "user_with_nickname =
     Record ''User'' [Field ''name'' (Primitive String) True None,
                      Field ''nickname'' (Primitive String) False (Some ''null'')]"

section \<open>Properties of the client\<close>

subsection \<open>Auxiliary facts\<close>

declare handleError.simps [simp del]

lemma UNIV_CompatibilityMode:
  "(UNIV :: CompatibilityMode set) =
     {BACKWARD, FORWARD, FULL, BACKWARD_TRANSITIVE, FORWARD_TRANSITIVE, FULL_TRANSITIVE, NONE}"
  using CompatibilityMode.exhaust by auto

lemma send_const: "fst (send k cond (\<lambda>_. out) i) = out"
  by (induction k arbitrary: i) (auto split: outcome.splits thrown.splits)

lemma send_attempts: "Suc i \<le> snd (send k cond net i) \<and> snd (send k cond net i) \<le> Suc (i + k)"
proof (induction k arbitrary: i)
  case 0
  then show ?case by simp
next
  case (Suc k)
  have "Suc (Suc i) \<le> snd (send k cond net (Suc i)) \<and> snd (send k cond net (Suc i)) \<le> Suc (Suc i + k)"
    using Suc.IH by blast
  then show ?case by (auto split: outcome.splits thrown.splits)
qed

lemma send_no_retry:
  "net i = Rejected t \<Longrightarrow> (\<And>e. t = AxiosError e \<Longrightarrow> \<not> cond e) \<Longrightarrow> send k cond net i = (Rejected t, Suc i)"
  by (cases k) (auto split: outcome.splits thrown.splits)

lemma send_resolved:
  "net i = Resolved d \<Longrightarrow> send k cond net i = (Resolved d, Suc i)"
  by (cases k) (auto split: outcome.splits thrown.splits)

lemma send_all_retry:
  "(\<And>j. j \<le> k \<Longrightarrow> \<exists>e. net (i + j) = Rejected (AxiosError e) \<and> cond e)
     \<Longrightarrow> send k cond net i = (net (i + k), Suc (i + k))"
proof (induction k arbitrary: i)
  case 0
  then show ?case by simp
next
  case (Suc k)
  obtain e where e: "net i = Rejected (AxiosError e)" "cond e"
    using Suc.prems[of 0] by auto
  have "send k cond net (Suc i) = (net (Suc i + k), Suc (Suc i + k))"
  proof (rule Suc.IH)
    fix j assume "j \<le> k"
    then show "\<exists>e. net (Suc i + j) = Rejected (AxiosError e) \<and> cond e"
      using Suc.prems[of "Suc j"] by simp
  qed
  then show ?case using e by simp
qed

lemma call_eq:
  "call c req net =
     ((case fst (send (nat (retries c)) (retry_cond c) net 0) of
         Resolved d \<Rightarrow> Return d
       | Rejected t \<Rightarrow> Throw (throw_handleError t)),
      replicate (snd (send (nat (retries c)) (retry_cond c) net 0)) req)"
  by (simp add: call_def split: prod.splits outcome.splits)

lemma call_const_rejected: "fst (call c req (\<lambda>_. Rejected t)) = Throw (throw_handleError t)"
  by (simp add: call_eq send_const)

lemma call_length:
  "1 \<le> length (snd (call c req net)) \<and> length (snd (call c req net)) \<le> Suc (nat (retries c))"
  using send_attempts[of 0 "nat (retries c)" "retry_cond c" net] by (simp add: call_eq)

lemma call_no_retry:
  "net 0 = Rejected t \<Longrightarrow> (\<And>e. t = AxiosError e \<Longrightarrow> \<not> retry_cond c e)
     \<Longrightarrow> call c req net = (Throw (throw_handleError t), [req])"
  by (simp add: call_eq send_no_retry)

lemma call_resolved: "net 0 = Resolved d \<Longrightarrow> call c req net = (Return d, [req])"
  by (simp add: call_eq send_resolved)

lemma call_all_retry:
  assumes "\<And>j. j \<le> nat (retries c) \<Longrightarrow> \<exists>e. net j = Rejected (AxiosError e) \<and> retry_cond c e"
    and "net (nat (retries c)) = Rejected t"
  shows "call c req net = (Throw (throw_handleError t), replicate (Suc (nat (retries c))) req)"
proof -
  have "send (nat (retries c)) (retry_cond c) net 0 =
          (net (0 + nat (retries c)), Suc (0 + nat (retries c)))"
    by (rule send_all_retry) (use assms in simp)
  then show ?thesis using assms(2) by (simp add: call_eq)
qed



lemma registerSchema_eq:
  "registerSchema c schema net =
     (fst (call c (POST, ''/schemas'') net), c, snd (call c (POST, ''/schemas'') net))"
  by (simp add: registerSchema_def split: prod.splits)

lemma getLatestSchema_eq:
  "getLatestSchema c ns nm net =
     (fst (call c (GET, ''/schemas/'' @ ns @ ''/'' @ nm @ ''/latest'') net), c,
      snd (call c (GET, ''/schemas/'' @ ns @ ''/'' @ nm @ ''/latest'') net))"
  by (simp add: getLatestSchema_def split: prod.splits)

lemma validate_eq:
  "validate c ns nm v dat net =
     (fst (call c (POST, ''/schemas/'' @ ns @ ''/'' @ nm @ ''/'' @ v @ ''/validate'') net), c,
      snd (call c (POST, ''/schemas/'' @ ns @ ''/'' @ nm @ ''/'' @ v @ ''/validate'') net))"
  by (simp add: validate_def split: prod.splits)

lemma checkCompatibility_eq:
  "checkCompatibility c ns nm newSchema net =
     (fst (call c (POST, ''/schemas/'' @ ns @ ''/'' @ nm @ ''/compatibility'') net), c,
      snd (call c (POST, ''/schemas/'' @ ns @ ''/'' @ nm @ ''/compatibility'') net))"
  by (simp add: checkCompatibility_def split: prod.splits)

lemma searchSchemas_eq:
  "searchSchemas c query net =
     (fst (call c (GET, ''/schemas/search'') net), c, snd (call c (GET, ''/schemas/search'') net))"
  by (simp add: searchSchemas_def split: prod.splits)

lemma listSchemas_eq:
  "listSchemas c ns net =
     (fst (call c (GET, ''/schemas/'' @ ns) net), c, snd (call c (GET, ''/schemas/'' @ ns) net))"
  by (simp add: listSchemas_def split: prod.splits)

lemma deleteSchema_eq:
  "deleteSchema c ns nm v net =
     (case fst (call c (DELETE, ''/schemas/'' @ ns @ ''/'' @ nm @ ''/'' @ v) net) of
        Return d \<Rightarrow> (Return (), c\<lparr>cache := cache_delete (cacheKey ns nm v) (cache c)\<rparr>,
                  snd (call c (DELETE, ''/schemas/'' @ ns @ ''/'' @ nm @ ''/'' @ v) net))
      | Throw e \<Rightarrow> (Throw e, c, snd (call c (DELETE, ''/schemas/'' @ ns @ ''/'' @ nm @ ''/'' @ v) net)))"
proof (cases "call c (DELETE, ''/schemas/'' @ ns @ ''/'' @ nm @ ''/'' @ v) net")
  case (Pair r log)
  then show ?thesis by (cases r) (simp_all add: deleteSchema_def)
qed

text \<open>Whether \<open>getSchema\<close> answers from the cache, and what it does otherwise.\<close>

lemma getSchema_hit:
  "find (\<lambda>e. ekey e = cacheKey ns nm v) (cache c) = Some e \<Longrightarrow> \<not> is_stale (cache_ttl c) now e
     \<Longrightarrow> truthy (evalue e)
     \<Longrightarrow> getSchema c ns nm v now later net =
           (Return (evalue e), c\<lparr>cache := e # cache_delete (cacheKey ns nm v) (cache c)\<rparr>, [])"
  by (simp add: getSchema_def cache_get_def Let_def)

lemma getSchema_fetch:
  assumes "case fst (cache_get (cache_ttl c) now (cacheKey ns nm v) (cache c)) of
             None \<Rightarrow> True | Some x \<Rightarrow> \<not> truthy x"
  shows "fst (getSchema c ns nm v now later net) =
           fst (call c (GET, ''/schemas/'' @ ns @ ''/'' @ nm @ ''/'' @ v) net)
       \<and> requests_of (getSchema c ns nm v now later net) =
           snd (call c (GET, ''/schemas/'' @ ns @ ''/'' @ nm @ ''/'' @ v) net)"
proof (cases "cache_get (cache_ttl c) now (cacheKey ns nm v) (cache c)")
  case g: (Pair hit es)
  show ?thesis
  proof (cases "call c (GET, ''/schemas/'' @ ns @ ''/'' @ nm @ ''/'' @ v) net")
    case (Pair r log)
    then show ?thesis using g assms
      by (cases r; cases hit) (simp_all add: getSchema_def requests_of_def Let_def)
  qed
qed

lemma getSchema_cases:
  "(fst (getSchema c ns nm v now later net) =
           fst (call c (GET, ''/schemas/'' @ ns @ ''/'' @ nm @ ''/'' @ v) net)
       \<and> requests_of (getSchema c ns nm v now later net) =
           snd (call c (GET, ''/schemas/'' @ ns @ ''/'' @ nm @ ''/'' @ v) net))
   \<or> (\<exists>x. fst (getSchema c ns nm v now later net) = Return x
         \<and> requests_of (getSchema c ns nm v now later net) = [])"
proof (cases "cache_get (cache_ttl c) now (cacheKey ns nm v) (cache c)")
  case g: (Pair hit es)
  show ?thesis
  proof (cases "call c (GET, ''/schemas/'' @ ns @ ''/'' @ nm @ ''/'' @ v) net")
    case (Pair r log)
    then show ?thesis using g
      by (cases r; cases hit) (simp_all add: getSchema_def requests_of_def Let_def)
  qed
qed

lemma thrown_error_Some: "thrown_error r = Some e \<longleftrightarrow> fst r = Throw e"
  by (simp add: thrown_error_def split: completion.splits)

lemma requests_of_simps [simp]: "requests_of (r, c, log) = log"
  by (simp add: requests_of_def)

lemma thrown_error_simps [simp]:
  "thrown_error (Throw e, x) = Some e" "thrown_error (Return d, x) = None"
  by (simp_all add: thrown_error_def)

text \<open>What \<open>handleError\<close> makes of a 409 and of a 422.\<close>

lemma handleError_409:
  "handleError (AxiosError \<lparr>ax_message = m, ax_response = Some \<lparr>status = 409, data = d\<rparr>\<rparr>) =
     new_IncompatibleSchemaError
       (error_list \<lparr>ax_message = m, ax_response = Some \<lparr>status = 409, data = d\<rparr>\<rparr>)"
  by (simp add: handleError.simps Let_def response_status_def)

lemma handleError_422:
  "handleError (AxiosError \<lparr>ax_message = m, ax_response = Some \<lparr>status = 422, data = d\<rparr>\<rparr>) =
     new_SchemaValidationError
       (error_list \<lparr>ax_message = m, ax_response = Some \<lparr>status = 422, data = d\<rparr>\<rparr>)"
  by (simp add: handleError.simps Let_def response_status_def)

lemma error_list_cases:
  "error_list \<lparr>ax_message = m, ax_response = Some \<lparr>status = s, data = d\<rparr>\<rparr> =
     (case get_prop d ''errors'' of
        None \<Rightarrow> JArray [error_message \<lparr>ax_message = m, ax_response = Some \<lparr>status = s, data = d\<rparr>\<rparr>]
      | Some x \<Rightarrow>
          if truthy x then x
          else JArray [error_message \<lparr>ax_message = m, ax_response = Some \<lparr>status = s, data = d\<rparr>\<rparr>])"
  by (simp add: error_list_def or_value_def response_data_def split: option.splits)

lemma plain_client_fields:
  "retries plain_client = 3" "cache plain_client = []" "cache_ttl plain_client = 300000"
  "cache_max plain_client = 1000"
  "retry_cond plain_client = retryCondition (\<lambda>_. False)"
  by (simp_all add: plain_client_def new_SchemaRegistryClient_def default_config_def
        or_number_def or_integer_def)


lemma send_prefix:
  "(\<And>j. j < k \<Longrightarrow> \<exists>e. net (i + j) = Rejected (AxiosError e) \<and> cond e) \<Longrightarrow> k \<le> n
     \<Longrightarrow> send n cond net i = send (n - k) cond net (i + k)"
proof (induction k arbitrary: n i)
  case 0
  then show ?case by simp
next
  case (Suc k)
  obtain m where n: "n = Suc m" using Suc.prems(2) by (cases n) auto
  obtain e where e: "net i = Rejected (AxiosError e)" "cond e"
    using Suc.prems(1)[of 0] by auto
  have "send m cond net (Suc i) = send (m - k) cond net (Suc i + k)"
  proof (rule Suc.IH)
    fix j assume "j < k"
    then show "\<exists>e. net (Suc i + j) = Rejected (AxiosError e) \<and> cond e"
      using Suc.prems(1)[of "Suc j"] by simp
  next
    show "k \<le> m" using Suc.prems(2) n by simp
  qed
  then show ?case using e n by simp
qed

lemma call_prefix_no_retry:
  assumes "\<And>j. j < k \<Longrightarrow> \<exists>e. net j = Rejected (AxiosError e) \<and> retry_cond c e"
    and "k \<le> nat (retries c)"
    and "net k = Rejected t"
    and "\<And>e. t = AxiosError e \<Longrightarrow> \<not> retry_cond c e"
  shows "call c req net = (Throw (throw_handleError t), replicate (Suc k) req)"
proof -
  have "send (nat (retries c)) (retry_cond c) net 0 =
          send (nat (retries c) - k) (retry_cond c) net (0 + k)"
    by (rule send_prefix) (use assms in simp_all)
  also have "\<dots> = (Rejected t, Suc (0 + k))"
    by (rule send_no_retry) (use assms in simp_all)
  finally show ?thesis by (simp add: call_eq)
qed


lemma getSchema_requests_le:
  "length (requests_of (getSchema c ns nm v now later net)) \<le> Suc (nat (retries c))"
  using getSchema_cases[of c ns nm v now later net] call_length[of c _ net] by auto

lemma deleteSchema_requests:
  "requests_of (deleteSchema c ns nm v net) =
     snd (call c (DELETE, ''/schemas/'' @ ns @ ''/'' @ nm @ ''/'' @ v) net)"
  by (simp add: deleteSchema_eq requests_of_def split: completion.splits)

lemma find_cache_delete:
  "k' \<noteq> k \<Longrightarrow> find (\<lambda>e. ekey e = k') (cache_delete k es) = find (\<lambda>e. ekey e = k') es"
  by (induction es) (auto simp: cache_delete_def)

lemma length_cache_delete:
  "distinct (map ekey es) \<Longrightarrow> length es \<le> Suc (length (cache_delete k es))"
proof (induction es)
  case Nil
  then show ?case by (simp add: cache_delete_def)
next
  case (Cons x xs)
  show ?case
  proof (cases "ekey x = k")
    case True
    with Cons.prems have "k \<notin> ekey ` set xs" by auto
    then have "filter (\<lambda>e. ekey e \<noteq> k) xs = xs"
      by (auto simp: filter_id_conv)
    with True show ?thesis by (simp add: cache_delete_def)
  next
    case False
    with Cons show ?thesis by (simp add: cache_delete_def)
  qed
qed

lemma distinct_cache_delete: "distinct (map ekey es) \<Longrightarrow> distinct (map ekey (cache_delete k es))"
  by (simp add: cache_delete_def distinct_map_filter)

lemma keys_cache_delete: "ekey ` set (cache_delete k es) = ekey ` set es - {k}"
  by (auto simp: cache_delete_def)

lemma find_Some_key: "find (\<lambda>e. ekey e = k) es = Some e \<Longrightarrow> ekey e = k \<and> e \<in> set es"
  by (induction es) (auto split: if_splits)

lemma distinct_cache_get:
  "distinct (map ekey es) \<Longrightarrow> distinct (map ekey (snd (cache_get ttl now k es)))"
  by (auto simp: cache_get_def distinct_cache_delete keys_cache_delete
      split: option.splits dest: find_Some_key)

lemma distinct_cache_set:
  assumes "distinct (map ekey es)"
  shows "distinct (map ekey (cache_set mx now k v es))"
proof -
  have "distinct (map ekey (butlast es))"
    using assms by (simp add: map_butlast distinct_butlast)
  moreover have "k \<notin> ekey ` set es \<Longrightarrow> k \<notin> ekey ` set (butlast es)"
    by (auto dest: in_set_butlastD)
  ultimately show ?thesis
    using assms by (auto simp: cache_set_def Let_def distinct_cache_delete keys_cache_delete)
qed

lemma call_cache_update: "call (c\<lparr>cache := es\<rparr>) req net = call c req net"
  by (simp add: call_def)

lemma fst_cache_get_delete:
  "k' \<noteq> k \<Longrightarrow> fst (cache_get ttl now k' (cache_delete k es)) = fst (cache_get ttl now k' es)"
  by (simp add: cache_get_def find_cache_delete split: option.splits)

lemma getSchema_cache_only:
  "fst (getSchema c ns nm v now later net) =
     (case fst (cache_get (cache_ttl c) now (cacheKey ns nm v) (cache c)) of
        None \<Rightarrow> fst (call c (GET, ''/schemas/'' @ ns @ ''/'' @ nm @ ''/'' @ v) net)
      | Some x \<Rightarrow> if truthy x then Return x
                  else fst (call c (GET, ''/schemas/'' @ ns @ ''/'' @ nm @ ''/'' @ v) net))
   \<and> requests_of (getSchema c ns nm v now later net) =
     (case fst (cache_get (cache_ttl c) now (cacheKey ns nm v) (cache c)) of
        None \<Rightarrow> snd (call c (GET, ''/schemas/'' @ ns @ ''/'' @ nm @ ''/'' @ v) net)
      | Some x \<Rightarrow> if truthy x then []
                  else snd (call c (GET, ''/schemas/'' @ ns @ ''/'' @ nm @ ''/'' @ v) net))"
proof (cases "cache_get (cache_ttl c) now (cacheKey ns nm v) (cache c)")
  case g: (Pair hit es)
  show ?thesis
  proof (cases "call c (GET, ''/schemas/'' @ ns @ ''/'' @ nm @ ''/'' @ v) net")
    case (Pair r log)
    then show ?thesis using g
      by (cases r; cases hit) (simp_all add: getSchema_def requests_of_def Let_def)
  qed
qed

lemma getSchema_after_delete:
  assumes "k \<noteq> cacheKey ns nm v"
  shows "fst (getSchema (c\<lparr>cache := cache_delete k (cache c)\<rparr>) ns nm v now later net) =
           fst (getSchema c ns nm v now later net)
       \<and> requests_of (getSchema (c\<lparr>cache := cache_delete k (cache c)\<rparr>) ns nm v now later net) =
           requests_of (getSchema c ns nm v now later net)"
  using assms
  by (simp add: getSchema_cache_only[of "c\<lparr>cache := cache_delete k (cache c)\<rparr>"]
        getSchema_cache_only[of c] fst_cache_get_delete call_cache_update
      cong: option.case_cong if_cong)

lemma getSchema_store:
  assumes "case fst (cache_get (cache_ttl c) now (cacheKey ns nm v) (cache c)) of
             None \<Rightarrow> True | Some x \<Rightarrow> \<not> truthy x"
    and "net 0 = Resolved d"
  shows "getSchema c ns nm v now later net =
           (Return d,
            c\<lparr>cache := cache_set (cache_max c) later (cacheKey ns nm v) d
                 (snd (cache_get (cache_ttl c) now (cacheKey ns nm v) (cache c)))\<rparr>,
            [(GET, ''/schemas/'' @ ns @ ''/'' @ nm @ ''/'' @ v)])"
proof (cases "cache_get (cache_ttl c) now (cacheKey ns nm v) (cache c)")
  case g: (Pair hit es)
  then show ?thesis using assms
    by (cases hit) (simp_all add: getSchema_def call_resolved Let_def)
qed

lemma client_after_two_gets_eq:
  "client_after_two_gets second =
     plain_client\<lparr>cache := [\<lparr>ekey = ''ns:order:2'', evalue = second, estart = 0\<rparr>,
                            \<lparr>ekey = ''ns:user:1'', evalue = user_response, estart = 0\<rparr>]\<rparr>"
proof -
  have 1: "getSchema plain_client ''ns'' ''user'' ''1'' 0 0 (\<lambda>_. Resolved user_response) =
      (Return user_response,
       plain_client\<lparr>cache := [\<lparr>ekey = ''ns:user:1'', evalue = user_response, estart = 0\<rparr>]\<rparr>,
       [(GET, ''/schemas/ns/user/1'')])"
    by (subst getSchema_store[where d = user_response])
       (simp_all add: plain_client_fields cache_get_def cache_set_def cacheKey_def)
  have 2: "getSchema
       (plain_client\<lparr>cache := [\<lparr>ekey = ''ns:user:1'', evalue = user_response, estart = 0\<rparr>]\<rparr>)
       ''ns'' ''order'' ''2'' 0 0 (\<lambda>_. Resolved second) =
      (Return second,
       plain_client\<lparr>cache := [\<lparr>ekey = ''ns:order:2'', evalue = second, estart = 0\<rparr>,
                            \<lparr>ekey = ''ns:user:1'', evalue = user_response, estart = 0\<rparr>]\<rparr>,
       [(GET, ''/schemas/ns/order/2'')])"
    by (subst getSchema_store[where d = second])
       (simp_all add: plain_client_fields cache_get_def cache_set_def cacheKey_def)
  show ?thesis by (simp add: client_after_two_gets_def 1 2)
qed

lemma deleteSchema_after_two_gets:
  "deleteSchema (client_after_two_gets second) ''ns'' ''user'' ''1'' (\<lambda>_. Resolved JNull) =
     (Return (),
      plain_client\<lparr>cache := [\<lparr>ekey = ''ns:order:2'', evalue = second, estart = 0\<rparr>]\<rparr>,
      [(DELETE, ''/schemas/ns/user/1'')])"
  by (simp add: deleteSchema_eq call_resolved client_after_two_gets_eq cache_delete_def
        cacheKey_def)

text \<open>
  The cache of a client never holds two entries under one key: a new client's cache is
  empty, and the operations that touch the cache keep the keys distinct.
\<close>

lemma cache_keys_distinct:
  "distinct (map ekey (cache (new_SchemaRegistryClient f config)))"
  "distinct (map ekey (cache c)) \<Longrightarrow>
     distinct (map ekey (cache (fst (snd (getSchema c ns nm v now later net)))))"
  "distinct (map ekey (cache c)) \<Longrightarrow>
     distinct (map ekey (cache (fst (snd (deleteSchema c ns nm v net')))))"
  "distinct (map ekey (cache (clearCache c)))"
proof -
  show "distinct (map ekey (cache (new_SchemaRegistryClient f config)))"
    by (simp add: new_SchemaRegistryClient_def)
  show "distinct (map ekey (cache (clearCache c)))"
    by (simp add: clearCache_def)
next
  assume inv: "distinct (map ekey (cache c))"
  show "distinct (map ekey (cache (fst (snd (getSchema c ns nm v now later net)))))"
  proof (cases "cache_get (cache_ttl c) now (cacheKey ns nm v) (cache c)")
    case g: (Pair hit es)
    have d: "distinct (map ekey es)"
      using distinct_cache_get[OF inv, of "cache_ttl c" now "cacheKey ns nm v"] g by simp
    show ?thesis
    proof (cases "call c (GET, ''/schemas/'' @ ns @ ''/'' @ nm @ ''/'' @ v) net")
      case (Pair r log)
      then show ?thesis using g d
        by (cases r; cases hit) (simp_all add: getSchema_def Let_def distinct_cache_set)
    qed
  qed
  show "distinct (map ekey (cache (fst (snd (deleteSchema c ns nm v net')))))"
    using inv by (simp add: deleteSchema_eq distinct_cache_delete split: completion.splits)
qed

text \<open>
  What \<open>handleError\<close> returns is an instance of SchemaRegistryError. It throws, and then
  a \<open>TypeError\<close>, exactly when the status is 409 or 422 and the body's \<open>errors\<close> is
  truthy and no array.
\<close>

lemma handleError_returns:
  "handleError t = Return e \<Longrightarrow> instanceof e SchemaRegistryError"
  by (cases t)
     (auto simp: handleError.simps Let_def instanceof_def prototype_chain_def
        new_SchemaRegistryError_def new_SchemaNotFoundError_def new_SchemaValidationError_def
        new_IncompatibleSchemaError_def new_AuthenticationError_def new_RateLimitError_def
        split: if_splits json.splits)

lemma handleError_throws_iff:
  "(\<exists>e. handleError (AxiosError a) = Throw e) \<longleftrightarrow>
     (response_status a = Some 409 \<or> response_status a = Some 422)
     \<and> (\<exists>x. get_prop (response_data a) ''errors'' = Some x \<and> truthy x \<and> (\<forall>es. x \<noteq> JArray es))"
  by (auto simp: handleError.simps Let_def error_list_def or_value_def
        new_SchemaValidationError_def new_IncompatibleSchemaError_def
        split: if_splits json.splits option.splits)

lemma handleError_throws_TypeError:
  "handleError t = Throw e \<Longrightarrow> proto e = TypeError"
  by (cases t)
     (auto simp: handleError.simps Let_def new_SchemaValidationError_def
        new_IncompatibleSchemaError_def map_TypeError_def new_TypeError_def
        split: if_splits json.splits)

text \<open>
  Whatever the server answers, the SDK's \<open>checkCompatibility\<close> throws an error of one of
  these classes; \<open>AuthorizationError\<close> and \<open>ServerError\<close> are never constructed.
\<close>

lemma checkCompatibility_thrown_classes:
  assumes "thrown_error (checkCompatibility c ns nm newSchema net) = Some e"
  shows "proto e \<in>
       {SchemaRegistryError, SchemaNotFoundError, SchemaValidationError, IncompatibleSchemaError,
        AuthenticationError, RateLimitError, TypeError}"
proof -
  obtain t where e: "e = throw_handleError t"
    using assms
    by (auto simp: thrown_error_Some checkCompatibility_eq call_eq split: outcome.splits)
  show ?thesis
  proof (cases "handleError t")
    case (Throw x)
    then show ?thesis using handleError_throws_TypeError[OF Throw]
      by (simp add: e throw_handleError_def)
  next
    case (Return x)
    then show ?thesis unfolding e throw_handleError_def
      by (cases t)
         (auto simp: handleError.simps Let_def new_SchemaRegistryError_def
            new_SchemaNotFoundError_def new_SchemaValidationError_def
            new_IncompatibleSchemaError_def new_AuthenticationError_def new_RateLimitError_def
            split: if_splits json.splits)
  qed
qed

subsection \<open>The compatibility modes\<close>

text \<open>
  Claim C7. \<open>CompatibilityMode\<close> is a closed variant of exactly seven values: BACKWARD,
  FORWARD, FULL, BACKWARD_TRANSITIVE, FORWARD_TRANSITIVE, FULL_TRANSITIVE and NONE. The
  seven are pairwise different, they are the keys of the compiled enum object in this
  order, and the strings they stand for are pairwise different too.
\<close>

theorem CompatibilityMode_closed_variant:
  "(UNIV :: CompatibilityMode set) =
     {BACKWARD, FORWARD, FULL, BACKWARD_TRANSITIVE, FORWARD_TRANSITIVE, FULL_TRANSITIVE, NONE}
   \<and> distinct
       [BACKWARD, FORWARD, FULL, BACKWARD_TRANSITIVE, FORWARD_TRANSITIVE, FULL_TRANSITIVE, NONE]
   \<and> card (UNIV :: CompatibilityMode set) = 7
   \<and> map fst CompatibilityMode_entries =
       map CompatibilityMode_key
         [BACKWARD, FORWARD, FULL, BACKWARD_TRANSITIVE, FORWARD_TRANSITIVE, FULL_TRANSITIVE, NONE]
   \<and> distinct (map snd CompatibilityMode_entries)"
  by (simp add: UNIV_CompatibilityMode CompatibilityMode_entries_def)

subsection \<open>Error conversion\<close>

text \<open>
  Claim C8 says that the class of the error \<open>handleError\<close> returns depends on the status
  code alone, 409 yielding IncompatibleSchemaError and 422 SchemaValidationError. The body
  of a response is not checked against the type the source casts it to: for a 409 or a 422
  whose \<open>errors\<close> is a string or an object, the constructor's \<open>.map\<close> throws a
  \<open>TypeError\<close>, and \<open>handleError\<close> returns no error at all.
\<close>

theorem handleError_409_throws_TypeError:
  "handleError (AxiosError
       (status_error 409 (Some (JObject [(''errors'', JString ''field age was removed'')]))))
     = Throw (new_TypeError ''incompatibilities.map is not a function'')
   \<and> handleError (AxiosError
       (status_error 422 (Some (JObject [(''errors'', JObject [(''name'', JString ''required'')])]))))
     = Throw (new_TypeError ''errors.map is not a function'')"
  by (simp add: handleError_409 handleError_422 error_list_cases status_error_def
        new_SchemaValidationError_def new_IncompatibleSchemaError_def map_TypeError_def)

text \<open>
  Claim C10 says that every error a public operation throws is an instance of
  SchemaRegistryError. For a 422 whose \<open>errors\<close> is a string, \<open>validate\<close> throws the
  \<open>TypeError\<close> that escapes from \<open>handleError\<close>, which is no SchemaRegistryError.
\<close>

theorem validate_throws_TypeError:
  "thrown_error
     (validate plain_client ''ns'' ''user'' ''1'' ''{}''
        (\<lambda>_. Rejected (AxiosError
           (status_error 422 (Some (JObject [(''errors'', JString ''name is required'')]))))))
     = Some (new_TypeError ''errors.map is not a function'')
   \<and> \<not> instanceof (new_TypeError ''errors.map is not a function'') SchemaRegistryError"
  by (simp add: validate_eq call_const_rejected throw_handleError_def handleError_422
        error_list_cases status_error_def new_SchemaValidationError_def map_TypeError_def
        instanceof_def prototype_chain_def new_TypeError_def)

subsection \<open>Validation failures\<close>






subsection \<open>Compatibility failures\<close>

text \<open>
  Claim C2 says that a failed compatibility check never surfaces without reasons. When the
  server answers 409 with an empty \<open>errors\<close> array, the IncompatibleSchemaError thrown
  by \<open>checkCompatibility\<close> has no reasons and its message lists none: the empty array is
  truthy, so \<open>data?.errors || [message]\<close> does not fall back to the message.
\<close>

theorem checkCompatibility_throws_without_reasons:
  "thrown_error
     (checkCompatibility plain_client ''ns'' ''user'' ''{}''
        (\<lambda>_. Rejected (AxiosError
           (status_error 409
              (Some (JObject [(''message'', JString ''incompatible''), (''errors'', JArray [])]))))))
     = Some ((new_SchemaRegistryError
               (JString (''Schema compatibility check failed:'' @ newline)) (Some 409))
             \<lparr>incompatibilities := Some [], name := ''IncompatibleSchemaError'',
              proto := IncompatibleSchemaError\<rparr>)"
  by (simp add: checkCompatibility_eq call_const_rejected throw_handleError_def handleError_409
        error_list_cases status_error_def new_IncompatibleSchemaError_def)

subsection \<open>Retries\<close>

text \<open>
  Claim C3 says that no operation retries and every error is surfaced after a single
  attempt. The constructor installs a retry interceptor: with the default configuration, a
  server that answers every attempt with 429 is asked four times before
  \<open>getLatestSchema\<close> throws the RateLimitError.
\<close>

theorem getLatestSchema_retries_rate_limit:
  "requests_of
     (getLatestSchema (new_SchemaRegistryClient (\<lambda>_. False) default_config)
        ''ns'' ''user'' (\<lambda>_. Rejected (AxiosError (status_error 429 None))))
     = [(GET, ''/schemas/ns/user/latest''), (GET, ''/schemas/ns/user/latest''),
        (GET, ''/schemas/ns/user/latest''), (GET, ''/schemas/ns/user/latest'')]
   \<and> thrown_error
       (getLatestSchema (new_SchemaRegistryClient (\<lambda>_. False) default_config)
          ''ns'' ''user'' (\<lambda>_. Rejected (AxiosError (status_error 429 None))))
     = Some (new_RateLimitError None)"
proof -
  let ?c = "new_SchemaRegistryClient (\<lambda>_. False) default_config"
  let ?t = "AxiosError (status_error 429 None)"
  let ?net = "\<lambda>_::nat. Rejected ?t"
  have r: "nat (retries ?c) = 3"
    by (simp add: new_SchemaRegistryClient_def default_config_def or_integer_def)
  have "call ?c (GET, ''/schemas/ns/user/latest'') ?net
          = (Throw (throw_handleError ?t),
             replicate (Suc (nat (retries ?c))) (GET, ''/schemas/ns/user/latest''))"
    by (rule call_all_retry)
       (simp_all add: new_SchemaRegistryClient_def retryCondition_def response_status_def
          status_error_def)
  moreover have "throw_handleError ?t = new_RateLimitError None"
    by (simp add: throw_handleError_def handleError.simps Let_def response_status_def
          status_error_def)
  ultimately show ?thesis
    by (simp add: getLatestSchema_eq r eval_nat_numeral)
qed

text \<open>
  Claim C3, amended. Let the client be constructed from \<open>config\<close>, and let \<open>R\<close> be
  \<open>config.maxRetries\<close>, or 3 when that is unset or 0 (a negative value counts as no
  retry). Every operation sends its request at most \<open>R + 1\<close> times. An error that does
  not satisfy the constructor's retry condition (it is no Axios error, or it is neither a
  network or idempotent-request error, nor a 429, nor a status of 500 or more) is surfaced
  at once: at the first attempt after a single attempt, and after \<open>k\<close> retried attempts
  after \<open>k + 1\<close>. While every attempt fails with an error that satisfies the condition,
  the request is sent \<open>R + 1\<close> times in all, and then the error of the last attempt is
  surfaced. (\<open>getSchema\<close> sends requests only when the cache gives it nothing truthy.)
\<close>

theorem retry_bounded_and_conditional:
  assumes c: "c = (new_SchemaRegistryClient isNetworkOrIdempotentRequestError config)\<lparr>cache := es\<rparr>"
    and R: "R = nat (case maxRetries config of None \<Rightarrow> 3 | Some n \<Rightarrow> if n = 0 then 3 else n)"
  shows
   "(length (requests_of (registerSchema c schema net)) \<le> Suc R
    \<and> length (requests_of (getSchema c ns nm v now later net)) \<le> Suc R
    \<and> length (requests_of (getLatestSchema c ns nm net)) \<le> Suc R
    \<and> length (requests_of (validate c ns nm v dat net)) \<le> Suc R
    \<and> length (requests_of (checkCompatibility c ns nm newSchema net)) \<le> Suc R
    \<and> length (requests_of (searchSchemas c query net)) \<le> Suc R
    \<and> length (requests_of (listSchemas c ns net)) \<le> Suc R
    \<and> length (requests_of (deleteSchema c ns nm v net)) \<le> Suc R)
   \<and> ((\<forall>j. j < k \<longrightarrow>
          (\<exists>e. net1 j = Rejected (AxiosError e)
             \<and> (isNetworkOrIdempotentRequestError e
                \<or> response_status e = Some 429
                \<or> (\<exists>s. response_status e = Some s \<and> 500 \<le> s))))
       \<and> k \<le> R
       \<and> net1 k = Rejected t
       \<and> (\<forall>e. t = AxiosError e \<longrightarrow>
             \<not> isNetworkOrIdempotentRequestError e
             \<and> response_status e \<noteq> Some 429
             \<and> (\<forall>s. response_status e = Some s \<longrightarrow> s < 500)) \<longrightarrow>
        registerSchema c schema net1 = (Throw (throw_handleError t), c, replicate (Suc k) (POST, ''/schemas''))
      \<and> ((case fst (cache_get (cache_ttl c) now (cacheKey ns nm v) (cache c)) of
             None \<Rightarrow> True | Some x \<Rightarrow> \<not> truthy x) \<longrightarrow>
           fst (getSchema c ns nm v now later net1) = Throw (throw_handleError t)
         \<and> requests_of (getSchema c ns nm v now later net1) =
             replicate (Suc k) (GET, ''/schemas/'' @ ns @ ''/'' @ nm @ ''/'' @ v))
      \<and> getLatestSchema c ns nm net1 =
          (Throw (throw_handleError t), c,
           replicate (Suc k) (GET, ''/schemas/'' @ ns @ ''/'' @ nm @ ''/latest''))
      \<and> validate c ns nm v dat net1 =
          (Throw (throw_handleError t), c,
           replicate (Suc k) (POST, ''/schemas/'' @ ns @ ''/'' @ nm @ ''/'' @ v @ ''/validate''))
      \<and> checkCompatibility c ns nm newSchema net1 =
          (Throw (throw_handleError t), c,
           replicate (Suc k) (POST, ''/schemas/'' @ ns @ ''/'' @ nm @ ''/compatibility''))
      \<and> searchSchemas c query net1 =
          (Throw (throw_handleError t), c, replicate (Suc k) (GET, ''/schemas/search''))
      \<and> listSchemas c ns net1 =
          (Throw (throw_handleError t), c, replicate (Suc k) (GET, ''/schemas/'' @ ns))
      \<and> deleteSchema c ns nm v net1 =
          (Throw (throw_handleError t), c,
           replicate (Suc k) (DELETE, ''/schemas/'' @ ns @ ''/'' @ nm @ ''/'' @ v)))
   \<and> ((\<forall>j. j \<le> R \<longrightarrow>
          (\<exists>e. net2 j = Rejected (AxiosError e)
             \<and> (isNetworkOrIdempotentRequestError e
                \<or> response_status e = Some 429
                \<or> (\<exists>s. response_status e = Some s \<and> 500 \<le> s))))
       \<and> net2 R = Rejected t2 \<longrightarrow>
        registerSchema c schema net2 =
          (Throw (throw_handleError t2), c, replicate (Suc R) (POST, ''/schemas''))
      \<and> ((case fst (cache_get (cache_ttl c) now (cacheKey ns nm v) (cache c)) of
             None \<Rightarrow> True | Some x \<Rightarrow> \<not> truthy x) \<longrightarrow>
           fst (getSchema c ns nm v now later net2) = Throw (throw_handleError t2)
         \<and> requests_of (getSchema c ns nm v now later net2) =
             replicate (Suc R) (GET, ''/schemas/'' @ ns @ ''/'' @ nm @ ''/'' @ v))
      \<and> getLatestSchema c ns nm net2 =
          (Throw (throw_handleError t2), c,
           replicate (Suc R) (GET, ''/schemas/'' @ ns @ ''/'' @ nm @ ''/latest''))
      \<and> validate c ns nm v dat net2 =
          (Throw (throw_handleError t2), c,
           replicate (Suc R) (POST, ''/schemas/'' @ ns @ ''/'' @ nm @ ''/'' @ v @ ''/validate''))
      \<and> checkCompatibility c ns nm newSchema net2 =
          (Throw (throw_handleError t2), c,
           replicate (Suc R) (POST, ''/schemas/'' @ ns @ ''/'' @ nm @ ''/compatibility''))
      \<and> searchSchemas c query net2 =
          (Throw (throw_handleError t2), c, replicate (Suc R) (GET, ''/schemas/search''))
      \<and> listSchemas c ns net2 =
          (Throw (throw_handleError t2), c, replicate (Suc R) (GET, ''/schemas/'' @ ns))
      \<and> deleteSchema c ns nm v net2 =
          (Throw (throw_handleError t2), c,
           replicate (Suc R) (DELETE, ''/schemas/'' @ ns @ ''/'' @ nm @ ''/'' @ v)))"
proof -
  have r: "nat (retries c) = R"
    by (simp add: c R new_SchemaRegistryClient_def or_integer_def split: option.splits)
  have cond: "\<And>e. retry_cond c e \<longleftrightarrow>
      isNetworkOrIdempotentRequestError e \<or> response_status e = Some 429
      \<or> (\<exists>s. response_status e = Some s \<and> 500 \<le> s)"
    by (auto simp: c new_SchemaRegistryClient_def retryCondition_def split: option.splits)
  have le: "\<And>req. length (snd (call c req net)) \<le> Suc R"
    using call_length[of c _ net] by (simp add: r)
  have bounds:
    "length (requests_of (registerSchema c schema net)) \<le> Suc R
    \<and> length (requests_of (getSchema c ns nm v now later net)) \<le> Suc R
    \<and> length (requests_of (getLatestSchema c ns nm net)) \<le> Suc R
    \<and> length (requests_of (validate c ns nm v dat net)) \<le> Suc R
    \<and> length (requests_of (checkCompatibility c ns nm newSchema net)) \<le> Suc R
    \<and> length (requests_of (searchSchemas c query net)) \<le> Suc R
    \<and> length (requests_of (listSchemas c ns net)) \<le> Suc R
    \<and> length (requests_of (deleteSchema c ns nm v net)) \<le> Suc R"
    using getSchema_requests_le[of c ns nm v now later net]
    by (simp add: registerSchema_eq getLatestSchema_eq validate_eq checkCompatibility_eq
          searchSchemas_eq listSchemas_eq deleteSchema_requests le r)
  have single: "registerSchema c schema net1 = (Throw (throw_handleError t), c, replicate (Suc k) (POST, ''/schemas''))
      \<and> ((case fst (cache_get (cache_ttl c) now (cacheKey ns nm v) (cache c)) of
             None \<Rightarrow> True | Some x \<Rightarrow> \<not> truthy x) \<longrightarrow>
           fst (getSchema c ns nm v now later net1) = Throw (throw_handleError t)
         \<and> requests_of (getSchema c ns nm v now later net1) =
             replicate (Suc k) (GET, ''/schemas/'' @ ns @ ''/'' @ nm @ ''/'' @ v))
      \<and> getLatestSchema c ns nm net1 =
          (Throw (throw_handleError t), c,
           replicate (Suc k) (GET, ''/schemas/'' @ ns @ ''/'' @ nm @ ''/latest''))
      \<and> validate c ns nm v dat net1 =
          (Throw (throw_handleError t), c,
           replicate (Suc k) (POST, ''/schemas/'' @ ns @ ''/'' @ nm @ ''/'' @ v @ ''/validate''))
      \<and> checkCompatibility c ns nm newSchema net1 =
          (Throw (throw_handleError t), c,
           replicate (Suc k) (POST, ''/schemas/'' @ ns @ ''/'' @ nm @ ''/compatibility''))
      \<and> searchSchemas c query net1 =
          (Throw (throw_handleError t), c, replicate (Suc k) (GET, ''/schemas/search''))
      \<and> listSchemas c ns net1 =
          (Throw (throw_handleError t), c, replicate (Suc k) (GET, ''/schemas/'' @ ns))
      \<and> deleteSchema c ns nm v net1 =
          (Throw (throw_handleError t), c,
           replicate (Suc k) (DELETE, ''/schemas/'' @ ns @ ''/'' @ nm @ ''/'' @ v))"
    if a: "(\<forall>j. j < k \<longrightarrow>
          (\<exists>e. net1 j = Rejected (AxiosError e)
             \<and> (isNetworkOrIdempotentRequestError e
                \<or> response_status e = Some 429
                \<or> (\<exists>s. response_status e = Some s \<and> 500 \<le> s))))
       \<and> k \<le> R
       \<and> net1 k = Rejected t
       \<and> (\<forall>e. t = AxiosError e \<longrightarrow>
             \<not> isNetworkOrIdempotentRequestError e
             \<and> response_status e \<noteq> Some 429
             \<and> (\<forall>s. response_status e = Some s \<longrightarrow> s < 500))"
  proof -
    have call1: "\<And>req. call c req net1 = (Throw (throw_handleError t), replicate (Suc k) req)"
    proof (rule call_prefix_no_retry)
      fix j assume "j < k"
      then show "\<exists>e. net1 j = Rejected (AxiosError e) \<and> retry_cond c e"
        using a by (simp add: cond)
    next
      show "k \<le> nat (retries c)" using a by (simp add: r)
    next
      show "net1 k = Rejected t" using a by simp
    next
      fix e assume "t = AxiosError e"
      then show "\<not> retry_cond c e" using a by (auto simp: cond)
    qed
    show ?thesis
      using getSchema_fetch[of c now ns nm v later net1]
      by (simp add: registerSchema_eq getLatestSchema_eq validate_eq checkCompatibility_eq
            searchSchemas_eq listSchemas_eq deleteSchema_eq call1)
  qed
  have exhausted: "registerSchema c schema net2 =
          (Throw (throw_handleError t2), c, replicate (Suc R) (POST, ''/schemas''))
      \<and> ((case fst (cache_get (cache_ttl c) now (cacheKey ns nm v) (cache c)) of
             None \<Rightarrow> True | Some x \<Rightarrow> \<not> truthy x) \<longrightarrow>
           fst (getSchema c ns nm v now later net2) = Throw (throw_handleError t2)
         \<and> requests_of (getSchema c ns nm v now later net2) =
             replicate (Suc R) (GET, ''/schemas/'' @ ns @ ''/'' @ nm @ ''/'' @ v))
      \<and> getLatestSchema c ns nm net2 =
          (Throw (throw_handleError t2), c,
           replicate (Suc R) (GET, ''/schemas/'' @ ns @ ''/'' @ nm @ ''/latest''))
      \<and> validate c ns nm v dat net2 =
          (Throw (throw_handleError t2), c,
           replicate (Suc R) (POST, ''/schemas/'' @ ns @ ''/'' @ nm @ ''/'' @ v @ ''/validate''))
      \<and> checkCompatibility c ns nm newSchema net2 =
          (Throw (throw_handleError t2), c,
           replicate (Suc R) (POST, ''/schemas/'' @ ns @ ''/'' @ nm @ ''/compatibility''))
      \<and> searchSchemas c query net2 =
          (Throw (throw_handleError t2), c, replicate (Suc R) (GET, ''/schemas/search''))
      \<and> listSchemas c ns net2 =
          (Throw (throw_handleError t2), c, replicate (Suc R) (GET, ''/schemas/'' @ ns))
      \<and> deleteSchema c ns nm v net2 =
          (Throw (throw_handleError t2), c,
           replicate (Suc R) (DELETE, ''/schemas/'' @ ns @ ''/'' @ nm @ ''/'' @ v))"
    if a: "(\<forall>j. j \<le> R \<longrightarrow>
          (\<exists>e. net2 j = Rejected (AxiosError e)
             \<and> (isNetworkOrIdempotentRequestError e
                \<or> response_status e = Some 429
                \<or> (\<exists>s. response_status e = Some s \<and> 500 \<le> s))))
       \<and> net2 R = Rejected t2"
  proof -
    have call2: "\<And>req. call c req net2 = (Throw (throw_handleError t2), replicate (Suc R) req)"
    proof -
      fix req
      have "call c req net2 =
              (Throw (throw_handleError t2), replicate (Suc (nat (retries c))) req)"
      proof (rule call_all_retry)
        fix j assume "j \<le> nat (retries c)"
        then show "\<exists>e. net2 j = Rejected (AxiosError e) \<and> retry_cond c e"
          using a by (simp add: r cond)
      next
        show "net2 (nat (retries c)) = Rejected t2" using a by (simp add: r)
      qed
      then show "call c req net2 = (Throw (throw_handleError t2), replicate (Suc R) req)"
        by (simp add: r)
    qed
    show ?thesis
      using getSchema_fetch[of c now ns nm v later net2]
      by (simp add: registerSchema_eq getLatestSchema_eq validate_eq checkCompatibility_eq
            searchSchemas_eq listSchemas_eq deleteSchema_eq call2)
  qed
  show ?thesis
    using bounds single exhausted by blast
qed


theorem retry_bounded_and_conditional_witness:
  "one_retry_client =
     (new_SchemaRegistryClient (\<lambda>_. False) (default_config\<lparr>maxRetries := Some 1\<rparr>))\<lparr>cache := []\<rparr>
   \<and> (1::nat) =
       nat (case maxRetries (default_config\<lparr>maxRetries := Some 1\<rparr>) of
              None \<Rightarrow> 3 | Some n \<Rightarrow> if n = 0 then 3 else n)
   \<and> response_status (status_error 404 None) = Some 404
   \<and> response_status (status_error 500 None) = Some 500
   \<and> response_status (status_error 503 None) = Some 503
   \<and> unavailable_then_missing 0 = Rejected (AxiosError (status_error 503 None))
   \<and> unavailable_then_missing 1 = Rejected (AxiosError (status_error 404 None))
   \<and> fst (cache_get (cache_ttl one_retry_client) 0 (cacheKey ''ns'' ''user'' ''1'')
            (cache one_retry_client)) = None
   \<and> length (requests_of (listSchemas one_retry_client ''ns'' (\<lambda>_. Resolved (JArray [])))) \<le> 2
   \<and> deleteSchema one_retry_client ''ns'' ''user'' ''1'' unavailable_then_missing =
       (Throw (throw_handleError (AxiosError (status_error 404 None))), one_retry_client,
        [(DELETE, ''/schemas/ns/user/1''), (DELETE, ''/schemas/ns/user/1'')])
   \<and> requests_of
       (getSchema one_retry_client ''ns'' ''user'' ''1'' 0 0 unavailable_then_missing) =
       [(GET, ''/schemas/ns/user/1''), (GET, ''/schemas/ns/user/1'')]
   \<and> searchSchemas one_retry_client ''user''
        (\<lambda>_. Rejected (AxiosError (status_error 500 None))) =
       (Throw (throw_handleError (AxiosError (status_error 500 None))), one_retry_client,
        [(GET, ''/schemas/search''), (GET, ''/schemas/search'')])"
proof -
  let ?cfg = "default_config\<lparr>maxRetries := Some 1\<rparr>"
  let ?t = "AxiosError (status_error 404 None)"
  let ?t2 = "AxiosError (status_error 500 None)"
  let ?net2 = "\<lambda>_::nat. Rejected ?t2"
  have c: "one_retry_client = (new_SchemaRegistryClient (\<lambda>_. False) ?cfg)\<lparr>cache := []\<rparr>"
    by (simp add: one_retry_client_def new_SchemaRegistryClient_def)
  have R: "(1::nat) = nat (case maxRetries ?cfg of None \<Rightarrow> 3 | Some n \<Rightarrow> if n = 0 then 3 else n)"
    by simp
  have s404: "response_status (status_error 404 None) = Some 404"
    and s500: "response_status (status_error 500 None) = Some 500"
    and s503: "response_status (status_error 503 None) = Some 503"
    by (simp_all add: response_status_def status_error_def)
  have n0: "unavailable_then_missing 0 = Rejected (AxiosError (status_error 503 None))"
    and n1: "unavailable_then_missing 1 = Rejected ?t"
    by (simp_all add: unavailable_then_missing_def)
  have h1: "(\<forall>j. j < 1 \<longrightarrow>
          (\<exists>e. unavailable_then_missing j = Rejected (AxiosError e)
             \<and> ((\<lambda>_. False) e \<or> response_status e = Some 429
                \<or> (\<exists>s. response_status e = Some s \<and> 500 \<le> s))))
       \<and> (1::nat) \<le> 1
       \<and> unavailable_then_missing 1 = Rejected ?t
       \<and> (\<forall>e. ?t = AxiosError e \<longrightarrow>
             \<not> (\<lambda>_. False) e \<and> response_status e \<noteq> Some 429
             \<and> (\<forall>s. response_status e = Some s \<longrightarrow> s < 500))"
    using n0 n1 by (simp add: s404 s503)
  have h2: "(\<forall>j. j \<le> 1 \<longrightarrow>
          (\<exists>e. ?net2 j = Rejected (AxiosError e)
             \<and> ((\<lambda>_. False) e \<or> response_status e = Some 429
                \<or> (\<exists>s. response_status e = Some s \<and> 500 \<le> s))))
       \<and> ?net2 1 = Rejected ?t2"
    by (simp add: s500)
  have miss: "fst (cache_get (cache_ttl one_retry_client) 0 (cacheKey ''ns'' ''user'' ''1'')
            (cache one_retry_client)) = None"
    by (simp add: one_retry_client_def new_SchemaRegistryClient_def cache_get_def)
  note inst = retry_bounded_and_conditional
         [OF c R, of "''{}''" "\<lambda>_. Resolved (JArray [])" "''ns''" "''user''" "''1''" 0 0 "''{}''"
             "''{}''" "''user''" 1 unavailable_then_missing ?t ?net2 ?t2]
  have b: "length (requests_of (listSchemas one_retry_client ''ns'' (\<lambda>_. Resolved (JArray [])))) \<le> 2"
    using inst by simp
  have d: "deleteSchema one_retry_client ''ns'' ''user'' ''1'' unavailable_then_missing =
       (Throw (throw_handleError ?t), one_retry_client,
        [(DELETE, ''/schemas/ns/user/1''), (DELETE, ''/schemas/ns/user/1'')])"
    using inst h1 by (simp add: eval_nat_numeral)
  have g: "requests_of (getSchema one_retry_client ''ns'' ''user'' ''1'' 0 0 unavailable_then_missing) =
       [(GET, ''/schemas/ns/user/1''), (GET, ''/schemas/ns/user/1'')]"
    using inst h1 miss by (simp add: eval_nat_numeral)
  have s: "searchSchemas one_retry_client ''user'' ?net2 =
       (Throw (throw_handleError ?t2), one_retry_client,
        [(GET, ''/schemas/search''), (GET, ''/schemas/search'')])"
    using inst h2 by (simp add: eval_nat_numeral)
  show ?thesis
    using c R s404 s500 s503 n0 n1 miss b d g s by (intro conjI)
qed

subsection \<open>Cache invalidation\<close>

text \<open>
  Claim C9 says that after a successful \<open>deleteSchema\<close> a \<open>getSchema\<close> for any other
  key within its TTL is still answered from the cache. \<open>getSchema\<close> answers from the
  cache only what is truthy (\<open>if (cached)\<close>): a client that has cached the empty body of
  a response under another key sends a new request for it, although the entry is in the
  cache and fresh.
\<close>

theorem getSchema_refetches_cached_empty_response:
  "deleteSchema (client_after_two_gets (JString [])) ''ns'' ''user'' ''1'' (\<lambda>_. Resolved JNull) =
     (Return (),
      plain_client\<lparr>cache := [\<lparr>ekey = ''ns:order:2'', evalue = JString [], estart = 0\<rparr>]\<rparr>,
      [(DELETE, ''/schemas/ns/user/1'')])
   \<and> cacheKey ''ns'' ''order'' ''2'' \<noteq> cacheKey ''ns'' ''user'' ''1''
   \<and> find (\<lambda>x. ekey x = cacheKey ''ns'' ''order'' ''2'')
        (cache (plain_client\<lparr>cache := [\<lparr>ekey = ''ns:order:2'', evalue = JString [], estart = 0\<rparr>]\<rparr>))
       = Some \<lparr>ekey = ''ns:order:2'', evalue = JString [], estart = 0\<rparr>
   \<and> \<not> is_stale (cache_ttl plain_client) 1000
         \<lparr>ekey = ''ns:order:2'', evalue = JString [], estart = 0\<rparr>
   \<and> requests_of
       (getSchema
          (plain_client\<lparr>cache := [\<lparr>ekey = ''ns:order:2'', evalue = JString [], estart = 0\<rparr>]\<rparr>)
          ''ns'' ''order'' ''2'' 1000 1000 (\<lambda>_. Resolved (JString [])))
       = [(GET, ''/schemas/ns/order/2'')]"
proof -
  let ?e = "\<lparr>ekey = ''ns:order:2'', evalue = JString [], estart = 0\<rparr>"
  let ?c' = "plain_client\<lparr>cache := [?e]\<rparr>"
  have g: "getSchema ?c' ''ns'' ''order'' ''2'' 1000 1000 (\<lambda>_. Resolved (JString [])) =
      (Return (JString []),
       ?c'\<lparr>cache := cache_set (cache_max ?c') 1000 (cacheKey ''ns'' ''order'' ''2'') (JString [])
            (snd (cache_get (cache_ttl ?c') 1000 (cacheKey ''ns'' ''order'' ''2'') (cache ?c')))\<rparr>,
       [(GET, ''/schemas/'' @ ''ns'' @ ''/'' @ ''order'' @ ''/'' @ ''2'')])"
    by (rule getSchema_store)
       (simp_all add: plain_client_fields cache_get_def cacheKey_def is_stale_def)
  show ?thesis
    by (simp add: deleteSchema_after_two_gets g cacheKey_def is_stale_def plain_client_fields)
qed

text \<open>
  Claim C9, amended. A successful \<open>deleteSchema\<close> removes from the cache the entry keyed
  \<open>namespace:name:version\<close> and nothing else: the remaining entries are the former
  ones in their former order, and at most one entry is gone. A \<open>getSchema\<close> for any
  other key therefore gives the same result with the same requests as it would have given
  before the deletion; in particular, a schema cached under another key that is not yet
  stale and truthy is still answered from the cache without a request. The cache of a
  client holds at most one entry per key.
\<close>

theorem deleteSchema_frame:
  assumes inv: "distinct (map ekey (cache c))"
    and del: "deleteSchema c ns nm v net = (Return (), c', log)"
    and other: "cacheKey ns' nm' v' \<noteq> cacheKey ns nm v"
  shows "cache c' = filter (\<lambda>x. ekey x \<noteq> cacheKey ns nm v) (cache c)
       \<and> length (cache c) \<le> Suc (length (cache c'))
       \<and> fst (getSchema c' ns' nm' v' now later net') = fst (getSchema c ns' nm' v' now later net')
       \<and> requests_of (getSchema c' ns' nm' v' now later net') =
           requests_of (getSchema c ns' nm' v' now later net')
       \<and> (find (\<lambda>x. ekey x = cacheKey ns' nm' v') (cache c) = Some e
            \<and> \<not> is_stale (cache_ttl c) now e \<and> truthy (evalue e) \<longrightarrow>
          find (\<lambda>x. ekey x = cacheKey ns' nm' v') (cache c') = Some e
          \<and> fst (getSchema c' ns' nm' v' now later net') = Return (evalue e)
          \<and> requests_of (getSchema c' ns' nm' v' now later net') = [])"
proof -
  have c': "c' = c\<lparr>cache := cache_delete (cacheKey ns nm v) (cache c)\<rparr>"
    using del by (auto simp: deleteSchema_eq split: completion.splits)
  have 1: "cache c' = filter (\<lambda>x. ekey x \<noteq> cacheKey ns nm v) (cache c)"
    by (simp add: c' cache_delete_def)
  have 2: "length (cache c) \<le> Suc (length (cache c'))"
    using length_cache_delete[OF inv] by (simp add: c')
  have 3: "fst (getSchema c' ns' nm' v' now later net') = fst (getSchema c ns' nm' v' now later net')
       \<and> requests_of (getSchema c' ns' nm' v' now later net') =
           requests_of (getSchema c ns' nm' v' now later net')"
    unfolding c' by (rule getSchema_after_delete) (use other in simp)
  have 4: "find (\<lambda>x. ekey x = cacheKey ns' nm' v') (cache c') = Some e
          \<and> fst (getSchema c' ns' nm' v' now later net') = Return (evalue e)
          \<and> requests_of (getSchema c' ns' nm' v' now later net') = []"
    if a: "find (\<lambda>x. ekey x = cacheKey ns' nm' v') (cache c) = Some e
            \<and> \<not> is_stale (cache_ttl c) now e \<and> truthy (evalue e)"
  proof -
    have f: "find (\<lambda>x. ekey x = cacheKey ns' nm' v') (cache c') = Some e"
      using a other by (simp add: c' find_cache_delete)
    have "getSchema c ns' nm' v' now later net' =
            (Return (evalue e), c\<lparr>cache := e # cache_delete (cacheKey ns' nm' v') (cache c)\<rparr>, [])"
      by (rule getSchema_hit) (use a in simp_all)
    then show ?thesis using 3 f by simp
  qed
  show ?thesis using 1 2 3 4 by blast
qed


theorem deleteSchema_frame_witness:
  "distinct (map ekey (cache (client_after_two_gets order_response)))
   \<and> deleteSchema (client_after_two_gets order_response) ''ns'' ''user'' ''1''
       (\<lambda>_. Resolved JNull) =
       (Return (),
        plain_client\<lparr>cache := [\<lparr>ekey = ''ns:order:2'', evalue = order_response, estart = 0\<rparr>]\<rparr>,
        [(DELETE, ''/schemas/ns/user/1'')])
   \<and> cacheKey ''ns'' ''order'' ''2'' \<noteq> cacheKey ''ns'' ''user'' ''1''
   \<and> find (\<lambda>x. ekey x = cacheKey ''ns'' ''order'' ''2'')
        (cache (client_after_two_gets order_response)) =
       Some \<lparr>ekey = ''ns:order:2'', evalue = order_response, estart = 0\<rparr>
   \<and> \<not> is_stale (cache_ttl (client_after_two_gets order_response)) 1000
         \<lparr>ekey = ''ns:order:2'', evalue = order_response, estart = 0\<rparr>
   \<and> truthy order_response
   \<and> fst (getSchema
            (plain_client\<lparr>cache := [\<lparr>ekey = ''ns:order:2'', evalue = order_response, estart = 0\<rparr>]\<rparr>)
            ''ns'' ''order'' ''2'' 1000 1000 (\<lambda>_. Rejected NonError)) = Return order_response
   \<and> requests_of
       (getSchema
          (plain_client\<lparr>cache := [\<lparr>ekey = ''ns:order:2'', evalue = order_response, estart = 0\<rparr>]\<rparr>)
          ''ns'' ''order'' ''2'' 1000 1000 (\<lambda>_. Rejected NonError)) = []"
proof -
  let ?c = "client_after_two_gets order_response"
  let ?e = "\<lparr>ekey = ''ns:order:2'', evalue = order_response, estart = 0\<rparr>"
  let ?c' = "plain_client\<lparr>cache := [?e]\<rparr>"
  have inv: "distinct (map ekey (cache ?c))"
    by (simp add: client_after_two_gets_eq)
  have del: "deleteSchema ?c ''ns'' ''user'' ''1'' (\<lambda>_. Resolved JNull) =
       (Return (), ?c', [(DELETE, ''/schemas/ns/user/1'')])"
    by (rule deleteSchema_after_two_gets)
  have other: "cacheKey ''ns'' ''order'' ''2'' \<noteq> cacheKey ''ns'' ''user'' ''1''"
    by (simp add: cacheKey_def)
  have hit: "find (\<lambda>x. ekey x = cacheKey ''ns'' ''order'' ''2'') (cache ?c) = Some ?e"
    by (simp add: client_after_two_gets_eq cacheKey_def)
  have fresh: "\<not> is_stale (cache_ttl ?c) 1000 ?e"
    by (simp add: is_stale_def client_after_two_gets_eq plain_client_fields)
  have tr: "truthy order_response"
    by (simp add: order_response_def)
  note frame = deleteSchema_frame[OF inv del other, of 1000 1000 "\<lambda>_. Rejected NonError" ?e]
  have pre: "find (\<lambda>x. ekey x = cacheKey ''ns'' ''order'' ''2'') (cache ?c) = Some ?e
      \<and> \<not> is_stale (cache_ttl ?c) 1000 ?e \<and> truthy (evalue ?e)"
    using hit fresh tr by simp
  note served =
    frame[THEN conjunct2, THEN conjunct2, THEN conjunct2, THEN conjunct2, THEN mp, OF pre]
  have answered: "fst (getSchema ?c' ''ns'' ''order'' ''2'' 1000 1000 (\<lambda>_. Rejected NonError)) =
      Return order_response"
    using served[THEN conjunct2, THEN conjunct1] by simp
  have silent: "requests_of (getSchema ?c' ''ns'' ''order'' ''2'' 1000 1000 (\<lambda>_. Rejected NonError)) = []"
    using served[THEN conjunct2, THEN conjunct2] by simp
  show ?thesis
    using inv del other hit fresh tr answered silent by (intro conjI)
qed


section \<open>Properties of the compatibility engine, as specified\<close>

subsection \<open>Auxiliary facts\<close>

lemma canRead_Record:
  "canRead (Record wn wfs) (Record rn rfs) \<longleftrightarrow>
     (\<forall>rf\<in>set rfs. fieldRequired rf \<longrightarrow>
        (\<exists>wf\<in>set wfs. fieldName wf = fieldName rf \<and> canRead (fieldType wf) (fieldType rf))
        \<or> fieldDefault rf \<noteq> None)"
  by (auto simp: list_all_iff list_ex_iff Field.case_eq_if)

lemma canRead_Union:
  "canRead (Union wms) (Union rms) \<longleftrightarrow> (\<forall>wm\<in>set wms. \<exists>rm\<in>set rms. canRead wm rm)"
  by (simp add: list_all_iff list_ex_iff)

lemma canRead_refl_aux: "canRead a a"
  and "canRead (fieldType f) (fieldType f)"
proof (induction a and f)
  case (Record n fs)
  then show ?case unfolding canRead_Record by blast
next
  case (Union ms)
  then show ?case unfolding canRead_Union by blast
qed (auto simp: list_all_iff)

lemma first_failure_None_iff:
  "first_failure c h ps = None \<longleftrightarrow> (\<forall>p\<in>set ps. holds p c h)"
  by (induction ps) auto

lemma first_failure_Some:
  "first_failure c h ps = Some p \<Longrightarrow> p \<in> set ps \<and> \<not> holds p c h"
  by (induction ps) (auto split: if_splits)

lemma check_entries_prefix:
  "(\<And>h. h \<in> set pre \<Longrightarrow> first_failure c h ps = None) \<Longrightarrow>
     check_entries c ps v (pre @ rest) checked =
       check_entries c ps (v + length pre) rest (checked @ [v..<v + length pre])"
proof (induction pre arbitrary: v checked)
  case Nil
  then show ?case by simp
next
  case (Cons a pre)
  have e: "[v..<v + length (a # pre)] = v # [Suc v..<Suc v + length pre]"
    by (subst upt_rec) simp
  have "first_failure c a ps = None" by (simp add: Cons.prems)
  then have "check_entries c ps v ((a # pre) @ rest) checked =
        check_entries c ps (Suc v) (pre @ rest) (checked @ [v])"
    by simp
  also have "\<dots> =
        check_entries c ps (Suc v + length pre) rest ((checked @ [v]) @ [Suc v..<Suc v + length pre])"
    by (rule Cons.IH) (simp add: Cons.prems)
  also have "\<dots> = check_entries c ps (v + length (a # pre)) rest (checked @ [v..<v + length (a # pre)])"
    unfolding e by simp
  finally show ?case .
qed

subsection \<open>Usage errors\<close>

text \<open>
  Claim C4. \<open>CheckCompatibility\<close> fails with InsufficientHistoryError for every call
  with no prior versions and a mode other than NONE, and with FormatMismatchError for every
  call in which a prior version declares another format than the candidate. Compatibility
  across formats is never evaluated: whenever a verdict is returned, every prior version
  has the candidate's format.
\<close>

theorem CheckCompatibility_usage_errors:
  "(mode \<noteq> NONE \<longrightarrow> CheckCompatibility parse cand [] mode = Inl InsufficientHistoryError)
   \<and> ((\<exists>p\<in>set priors. docFormat p \<noteq> docFormat cand) \<longrightarrow>
        CheckCompatibility parse cand priors mode' = Inl FormatMismatchError)
   \<and> (CheckCompatibility parse cand priors' mode'' = Inr verdict \<longrightarrow>
        (\<forall>p\<in>set priors'. docFormat p = docFormat cand))"
  by (auto simp: CheckCompatibility_def list_ex_iff split: if_splits)


theorem CheckCompatibility_usage_errors_witness:
  "BACKWARD \<noteq> NONE
   \<and> CheckCompatibility (\<lambda>raw fmt. Inr user_v1)
       \<lparr>rawText = ''{}'', docFormat = AVRO, docNamespace = ''ns'', docName = ''User''\<rparr> []
       BACKWARD = Inl InsufficientHistoryError
   \<and> docFormat \<lparr>rawText = ''{}'', docFormat = JSON_SCHEMA, docNamespace = ''ns'', docName = ''User''\<rparr>
       \<noteq> docFormat \<lparr>rawText = ''{}'', docFormat = AVRO, docNamespace = ''ns'', docName = ''User''\<rparr>
   \<and> CheckCompatibility (\<lambda>raw fmt. Inr user_v1)
       \<lparr>rawText = ''{}'', docFormat = AVRO, docNamespace = ''ns'', docName = ''User''\<rparr>
       [\<lparr>rawText = ''{}'', docFormat = JSON_SCHEMA, docNamespace = ''ns'', docName = ''User''\<rparr>]
       FULL = Inl FormatMismatchError
   \<and> CheckCompatibility (\<lambda>raw fmt. Inr user_v1)
       \<lparr>rawText = ''{}'', docFormat = AVRO, docNamespace = ''ns'', docName = ''User''\<rparr>
       [\<lparr>rawText = ''{}'', docFormat = AVRO, docNamespace = ''ns'', docName = ''User''\<rparr>]
       NONE =
       Inr \<lparr>compatible = True, verdictIncompatibilities = [], checkedAgainstVersions = []\<rparr>
   \<and> list_all (\<lambda>p. docFormat p = AVRO)
       [\<lparr>rawText = ''{}'', docFormat = AVRO, docNamespace = ''ns'', docName = ''User''\<rparr>]"
proof -
  let ?cand = "\<lparr>rawText = ''{}'', docFormat = AVRO, docNamespace = ''ns'', docName = ''User''\<rparr>"
  let ?json = "\<lparr>rawText = ''{}'', docFormat = JSON_SCHEMA, docNamespace = ''ns'', docName = ''User''\<rparr>"
  let ?parse = "\<lambda>(raw :: string) (fmt :: SchemaFormat). Inr user_v1 :: core_error + SchemaNode"
  let ?ok = "\<lparr>compatible = True, verdictIncompatibilities = [], checkedAgainstVersions = []\<rparr>"
  have h1: "BACKWARD \<noteq> NONE" by simp
  have h2: "\<exists>p\<in>set [?json]. docFormat p \<noteq> docFormat ?cand" by simp
  have h3: "CheckCompatibility ?parse ?cand [?cand] NONE = Inr ?ok"
    by (simp add: CheckCompatibility_def engine_checkCompatibility_def)
  from CheckCompatibility_usage_errors
         [of BACKWARD ?parse ?cand "[?json]" FULL "[?cand]" NONE ?ok]
       h1 h2 h3
  show ?thesis by simp
qed

subsection \<open>Transitive modes\<close>

text \<open>
  Claim C5. Under a transitive mode the predicates of the mode are checked between the
  candidate and every entry of the history, oldest first, and evaluation stops at the first
  predicate that fails. If every entry passes, the verdict is compatible and every version
  was checked. If the entries before some entry pass and that entry fails, the verdict is
  incompatible, its only reason cites that entry's version and the predicate that failed,
  the versions checked end with it, and the entries after it play no part. In particular,
  for the history [v1, v2] under BACKWARD_TRANSITIVE with v1 incompatible (the candidate
  cannot read data written with v1), the verdict is incompatible and cites version 1,
  whatever v2 is.
\<close>

theorem transitive_oldest_first_short_circuit:
  assumes "transitive m"
  shows "((\<forall>h\<in>set hs. \<forall>q\<in>set (predicates m). holds q c h) \<longrightarrow>
           engine_checkCompatibility c hs m =
             \<lparr>compatible = True, verdictIncompatibilities = [],
              checkedAgainstVersions = [1..<Suc (length hs)]\<rparr>)
       \<and> ((\<forall>h\<in>set pre. \<forall>q\<in>set (predicates m). holds q c h)
            \<and> first_failure c h (predicates m) = Some p \<longrightarrow>
           p \<in> set (predicates m) \<and> \<not> holds p c h
           \<and> engine_checkCompatibility c (pre @ h # post) m =
               \<lparr>compatible = False,
                verdictIncompatibilities =
                  [\<lparr>failedPredicate = p, againstVersion = Suc (length pre)\<rparr>],
                checkedAgainstVersions = [1..<Suc (Suc (length pre))]\<rparr>)
       \<and> (\<not> canRead v1 c \<longrightarrow>
           engine_checkCompatibility c [v1, v2] BACKWARD_TRANSITIVE =
             \<lparr>compatible = False,
              verdictIncompatibilities = [\<lparr>failedPredicate = Backward, againstVersion = 1\<rparr>],
              checkedAgainstVersions = [1]\<rparr>)"
proof (intro conjI impI)
  have nn: "m \<noteq> NONE" using assms by auto
  {
    assume "\<forall>h\<in>set hs. \<forall>q\<in>set (predicates m). holds q c h"
    then have "check_entries c (predicates m) 1 (hs @ []) [] =
       check_entries c (predicates m) (1 + length hs) [] ([] @ [1..<1 + length hs])"
      by (intro check_entries_prefix) (simp add: first_failure_None_iff)
    then show "engine_checkCompatibility c hs m =
             \<lparr>compatible = True, verdictIncompatibilities = [],
              checkedAgainstVersions = [1..<Suc (length hs)]\<rparr>"
      using assms nn by (simp add: engine_checkCompatibility_def)
  }
  {
    assume a: "(\<forall>h\<in>set pre. \<forall>q\<in>set (predicates m). holds q c h)
            \<and> first_failure c h (predicates m) = Some p"
    then show "p \<in> set (predicates m)" and "\<not> holds p c h"
      using first_failure_Some[of c h "predicates m" p] by simp_all
    from a have "check_entries c (predicates m) 1 (pre @ h # post) [] =
       check_entries c (predicates m) (1 + length pre) (h # post) ([] @ [1..<1 + length pre])"
      by (intro check_entries_prefix) (simp add: first_failure_None_iff)
    then show "engine_checkCompatibility c (pre @ h # post) m =
             \<lparr>compatible = False,
              verdictIncompatibilities =
                [\<lparr>failedPredicate = p, againstVersion = Suc (length pre)\<rparr>],
              checkedAgainstVersions = [1..<Suc (Suc (length pre))]\<rparr>"
      using assms nn a by (simp add: engine_checkCompatibility_def)
  }
  {
    assume "\<not> canRead v1 c"
    then show "engine_checkCompatibility c [v1, v2] BACKWARD_TRANSITIVE =
             \<lparr>compatible = False,
              verdictIncompatibilities = [\<lparr>failedPredicate = Backward, againstVersion = 1\<rparr>],
              checkedAgainstVersions = [1]\<rparr>"
      by (simp add: engine_checkCompatibility_def)
  }
qed

theorem transitive_oldest_first_short_circuit_witness:
  "transitive BACKWARD_TRANSITIVE
   \<and> list_all (\<lambda>h. list_all (\<lambda>q. holds q user_with_email h) (predicates BACKWARD_TRANSITIVE))
        [user_with_email]
   \<and> first_failure user_with_email user_v1 (predicates BACKWARD_TRANSITIVE) = Some Backward
   \<and> \<not> canRead user_v1 user_with_email
   \<and> canRead user_with_email user_with_email
   \<and> engine_checkCompatibility user_with_email [user_with_email] BACKWARD_TRANSITIVE =
       \<lparr>compatible = True, verdictIncompatibilities = [], checkedAgainstVersions = [1]\<rparr>
   \<and> engine_checkCompatibility user_with_email [user_with_email, user_v1, user_with_email]
       BACKWARD_TRANSITIVE =
       \<lparr>compatible = False,
        verdictIncompatibilities = [\<lparr>failedPredicate = Backward, againstVersion = 2\<rparr>],
        checkedAgainstVersions = [1, 2]\<rparr>
   \<and> engine_checkCompatibility user_with_email [user_v1, user_with_email]
       BACKWARD_TRANSITIVE =
       \<lparr>compatible = False,
        verdictIncompatibilities = [\<lparr>failedPredicate = Backward, againstVersion = 1\<rparr>],
        checkedAgainstVersions = [1]\<rparr>"
proof -
  have t: "transitive BACKWARD_TRANSITIVE" by simp
  have pass: "\<forall>h\<in>set [user_with_email].
                \<forall>q\<in>set (predicates BACKWARD_TRANSITIVE). holds q user_with_email h"
    by (simp add: user_with_email_def)
  have fails: "first_failure user_with_email user_v1 (predicates BACKWARD_TRANSITIVE) = Some Backward"
    by (simp add: user_v1_def user_with_email_def)
  have no: "\<not> canRead user_v1 user_with_email"
    by (simp add: user_v1_def user_with_email_def)
  have yes: "canRead user_with_email user_with_email"
    by (simp add: user_with_email_def)
  from transitive_oldest_first_short_circuit
         [OF t, of "[user_with_email]" user_with_email "[user_with_email]" user_v1 Backward
            "[user_with_email]" user_v1 user_with_email]
       t pass fails no yes
  show ?thesis by (simp add: upt_rec)
qed

subsection \<open>Additive changes\<close>

text \<open>
  Claim C6. If schema \<open>B\<close> differs from schema \<open>A\<close> only by the addition of a new
  field that has a default value, then \<open>canRead(B, A)\<close> and \<open>canRead(A, B)\<close> both
  hold: the purely additive change is FULL-compatible, that is, checking \<open>B\<close> against
  the history \<open>[A]\<close> under FULL gives a compatible verdict without reasons.
\<close>

theorem additive_change_readable_both_ways:
  assumes "adds_field a b"
  shows "canRead b a \<and> canRead a b
       \<and> engine_checkCompatibility b [a] FULL =
           \<lparr>compatible = True, verdictIncompatibilities = [], checkedAgainstVersions = [1]\<rparr>"
proof -
  have both: "canRead b a \<and> canRead a b"
    using assms
  proof (induction rule: adds_field.induct)
    case (here f fs1 fs2 n t req d)
    show ?case unfolding canRead_Record
      using canRead_refl_aux(1) by (auto 4 4)
  next
    case (in_field a b n fs1 f req dflt fs2)
    then show ?case unfolding canRead_Record
      using canRead_refl_aux(1) by (auto 4 4)
  next
    case (in_union a b ms1 ms2)
    then show ?case unfolding canRead_Union
      using canRead_refl_aux(1) by (auto 4 4)
  qed simp_all
  then show ?thesis
    by (simp add: engine_checkCompatibility_def)
qed

theorem additive_change_readable_both_ways_witness:
  "adds_field user_v1 user_with_nickname
   \<and> canRead user_with_nickname user_v1
   \<and> canRead user_v1 user_with_nickname
   \<and> compatible (engine_checkCompatibility user_with_nickname [user_v1] FULL)"
proof -
  have "adds_field (Record ''User'' ([Field ''name'' (Primitive String) True None] @ []))
          (Record ''User'' ([Field ''name'' (Primitive String) True None]
             @ Field ''nickname'' (Primitive String) False (Some ''null'') # []))"
    by (rule adds_field.here) simp
  then have h: "adds_field user_v1 user_with_nickname"
    by (simp add: user_v1_def user_with_nickname_def)
  from additive_change_readable_both_ways[OF h] h show ?thesis by simp
qed

end
